theory Spec2Isabelle
  imports Complex_Main
begin

section \<open>Numbers\<close>

text \<open>
  The program computes with Python floats (pandas cells, \<open>float(...)\<close>) and with
  PostgreSQL \<open>NUMERIC\<close> values (the body of \<open>calculate_income_tax\<close>, the columns of
  \<open>pay_structure\<close>). Both are modelled by one type: an exact number or the special value
  NaN. Arithmetic is exact: the rounding error of IEEE doubles, the infinities, and the
  finite working precision of \<open>NUMERIC\<close> division are outside the model. What the model
  keeps is where the two worlds differ on NaN: a Python comparison with NaN is false, while
  PostgreSQL sorts NaN above every number.
\<close>

datatype number = Fin real | NaN

fun num_add :: "number \<Rightarrow> number \<Rightarrow> number" where
  "num_add (Fin a) (Fin b) = Fin (a + b)"
| "num_add _ _ = NaN"

fun num_sub :: "number \<Rightarrow> number \<Rightarrow> number" where
  "num_sub (Fin a) (Fin b) = Fin (a - b)"
| "num_sub _ _ = NaN"

fun num_mul :: "number \<Rightarrow> number \<Rightarrow> number" where
  "num_mul (Fin a) (Fin b) = Fin (a * b)"
| "num_mul _ _ = NaN"

text \<open>Division is only ever applied with the divisor 12.\<close>

fun num_div :: "number \<Rightarrow> number \<Rightarrow> number" where
  "num_div (Fin a) (Fin b) = Fin (a / b)"
| "num_div _ _ = NaN"

text \<open>Python: \<open>a <= b\<close>, \<open>a < b\<close>, \<open>a > b\<close> on floats; false as soon as one side is NaN.\<close>

fun py_le :: "number \<Rightarrow> number \<Rightarrow> bool" where
  "py_le (Fin a) (Fin b) = (a \<le> b)"
| "py_le _ _ = False"

fun py_lt :: "number \<Rightarrow> number \<Rightarrow> bool" where
  "py_lt (Fin a) (Fin b) = (a < b)"
| "py_lt _ _ = False"

definition py_gt :: "number \<Rightarrow> number \<Rightarrow> bool" where
  "py_gt a b = py_lt b a"

text \<open>PostgreSQL: \<open>a <= b\<close> on \<open>NUMERIC\<close>; NaN equals NaN and is greater than every number.\<close>

fun pg_le :: "number \<Rightarrow> number \<Rightarrow> bool" where
  "pg_le (Fin a) (Fin b) = (a \<le> b)"
| "pg_le _ NaN = True"
| "pg_le NaN (Fin b) = False"

definition pg_ge :: "number \<Rightarrow> number \<Rightarrow> bool" where
  "pg_ge a b = pg_le b a"

definition pg_gt :: "number \<Rightarrow> number \<Rightarrow> bool" where
  "pg_gt a b = (\<not> pg_le a b)"

text \<open>
  PostgreSQL \<open>ROUND(x, s)\<close> on \<open>NUMERIC\<close>: to \<open>s\<close> decimal places, ties away from zero.
\<close>

definition pg_round :: "real \<Rightarrow> nat \<Rightarrow> real" where
  "pg_round x s = sgn x * (of_int \<lfloor>\<bar>x\<bar> * 10 ^ s + 1 / 2\<rfloor> / 10 ^ s)"

fun num_round :: "number \<Rightarrow> nat \<Rightarrow> number" where
  "num_round (Fin a) s = Fin (pg_round a s)"
| "num_round NaN s = NaN"


section \<open>The income tax function\<close>

text \<open>
  The PL/pgSQL function that \<open>create_tables\<close> installs:
  \<^verbatim>\<open>
  IF annual_income <= 300000 THEN tax := 0;
  ELSIF annual_income <= 600000 THEN tax := (annual_income - 300000) * 0.05;
  ELSIF annual_income <= 900000 THEN tax := 15000 + (annual_income - 600000) * 0.10;
  ELSIF annual_income <= 1200000 THEN tax := 45000 + (annual_income - 900000) * 0.15;
  ELSIF annual_income <= 1500000 THEN tax := 90000 + (annual_income - 1200000) * 0.20;
  ELSE tax := 150000 + (annual_income - 1500000) * 0.30;
  END IF;
  RETURN ROUND(tax / 12, 2);
  \<close>
  \<open>annual_tax\<close> is the value of the variable \<open>tax\<close> after the \<open>IF\<close> chain.
\<close>

definition annual_tax :: "number \<Rightarrow> number" where
  "annual_tax annual_income =
     (if pg_le annual_income (Fin 300000) then Fin 0
      else if pg_le annual_income (Fin 600000) then
        num_mul (num_sub annual_income (Fin 300000)) (Fin (5 / 100))
      else if pg_le annual_income (Fin 900000) then
        num_add (Fin 15000) (num_mul (num_sub annual_income (Fin 600000)) (Fin (10 / 100)))
      else if pg_le annual_income (Fin 1200000) then
        num_add (Fin 45000) (num_mul (num_sub annual_income (Fin 900000)) (Fin (15 / 100)))
      else if pg_le annual_income (Fin 1500000) then
        num_add (Fin 90000) (num_mul (num_sub annual_income (Fin 1200000)) (Fin (20 / 100)))
      else
        num_add (Fin 150000) (num_mul (num_sub annual_income (Fin 1500000)) (Fin (30 / 100))))"

definition calculate_income_tax :: "number \<Rightarrow> number" where
  "calculate_income_tax annual_income = num_round (num_div (annual_tax annual_income) (Fin 12)) 2"

text \<open>
  The specification's wording of the same function: six bands, each taxing the portion of
  the income that falls inside it at the band's rate, summed.
\<close>

definition band_portion :: "real \<Rightarrow> real \<Rightarrow> real \<Rightarrow> real" where
  "band_portion lo hi x = max 0 (min x hi - lo)"

definition marginal_annual_tax :: "real \<Rightarrow> real" where
  "marginal_annual_tax x =
     0 / 100 * band_portion 0 300000 x
     + 5 / 100 * band_portion 300000 600000 x
     + 10 / 100 * band_portion 600000 900000 x
     + 15 / 100 * band_portion 900000 1200000 x
     + 20 / 100 * band_portion 1200000 1500000 x
     + 30 / 100 * max 0 (x - 1500000)"

definition spec_monthly_tax :: "real \<Rightarrow> real" where
  "spec_monthly_tax x = pg_round (marginal_annual_tax x / 12) 2"

text \<open>The part of an income above a threshold.\<close>

definition excess :: "real \<Rightarrow> real \<Rightarrow> real" where
  "excess b x = max 0 (x - b)"


section \<open>Python values read from the CSV files\<close>

text \<open>
  A cell of a numeric column, as pandas hands it to the program: a number, a missing value
  (NaN), or text that is not a number. \<open>float(...)\<close> and \<open>int(...)\<close> raise
  \<open>ValueError\<close> on such text and \<open>int(...)\<close> raises it on NaN; \<open>int\<close> of a number
  truncates towards zero.
\<close>

datatype cell = Number real | Nan | Text string

datatype exn = ValueError | TypeError

definition py_float :: "cell \<Rightarrow> exn + number" where
  "py_float c = (case c of Number x \<Rightarrow> Inr (Fin x) | Nan \<Rightarrow> Inr NaN | Text s \<Rightarrow> Inl ValueError)"

definition py_int :: "cell \<Rightarrow> exn + int" where
  "py_int c =
     (case c of
        Number x \<Rightarrow> Inr (if 0 \<le> x then \<lfloor>x\<rfloor> else \<lceil>x\<rceil>)
      | Nan \<Rightarrow> Inl ValueError
      | Text s \<Rightarrow> Inl ValueError)"

text \<open>
  A cell of a text column is given by what \<open>str(...)\<close> makes of it; \<open>None\<close> is a missing
  value, which \<open>str\<close> renders as \<open>nan\<close> and \<open>pd.isna\<close> recognises.
\<close>

definition py_str :: "string option \<Rightarrow> string" where
  "py_str c = (case c of None \<Rightarrow> ''nan'' | Some s \<Rightarrow> s)"

definition pd_isna :: "string option \<Rightarrow> bool" where
  "pd_isna c = (c = None)"

definition py_isspace :: "char \<Rightarrow> bool" where
  "py_isspace c =
     (c \<in> set [CHR 0x09, CHR 0x0A, CHR 0x0B, CHR 0x0C, CHR 0x0D,
                CHR 0x1C, CHR 0x1D, CHR 0x1E, CHR 0x1F, CHR 0x20])"

definition py_strip :: "string \<Rightarrow> string" where
  "py_strip s = rev (dropWhile py_isspace (rev (dropWhile py_isspace s)))"


section \<open>The regular expressions of the validators\<close>

text \<open>
  The patterns are sequences of character classes with counts, anchored at both ends and
  applied with \<open>re.match\<close>. Each piece consumes a prefix and returns the rest. A greedy
  repetition is exact here because in every pattern the piece that follows cannot start with
  a character of the repeated class. Python's \<open>$\<close> matches at the end of the string and
  also just before a newline that ends the string.
\<close>

definition is_upper :: "char \<Rightarrow> bool" where
  "is_upper c = (c \<in> set ''ABCDEFGHIJKLMNOPQRSTUVWXYZ'')"

definition is_lower :: "char \<Rightarrow> bool" where
  "is_lower c = (c \<in> set ''abcdefghijklmnopqrstuvwxyz'')"

definition is_alpha :: "char \<Rightarrow> bool" where
  "is_alpha c = (is_upper c \<or> is_lower c)"

definition is_digit :: "char \<Rightarrow> bool" where
  "is_digit c = (c \<in> set ''0123456789'')"

definition exactly :: "(char \<Rightarrow> bool) \<Rightarrow> nat \<Rightarrow> string \<Rightarrow> string option" where
  "exactly cls n s =
     (if n \<le> length s \<and> list_all cls (take n s) then Some (drop n s) else None)"

definition between :: "(char \<Rightarrow> bool) \<Rightarrow> nat \<Rightarrow> nat option \<Rightarrow> string \<Rightarrow> string option" where
  "between cls lo hi s =
     (let k = length (takeWhile cls s);
          k' = (case hi of None \<Rightarrow> k | Some h \<Rightarrow> min h k)
      in if lo \<le> k' then Some (drop k' s) else None)"

definition literal :: "string \<Rightarrow> string \<Rightarrow> string option" where
  "literal l s = (if take (length l) s = l then Some (drop (length l) s) else None)"

definition py_dollar :: "string option \<Rightarrow> bool" where
  "py_dollar r = (r = Some [] \<or> r = Some [CHR 0x0A])"

definition pg_dollar :: "string option \<Rightarrow> bool" where
  "pg_dollar r = (r = Some [])"

text \<open>\<^verbatim>\<open>^[A-Za-z]+\<close>\<close>

definition re_name :: "string \<Rightarrow> string option" where
  "re_name s = between is_alpha 1 None s"

text \<open>\<^verbatim>\<open>^[0-9]{2}[A-Z]{2}[0-9]{4}\<close>\<close>

definition re_quarter_no :: "string \<Rightarrow> string option" where
  "re_quarter_no s =
     Option.bind (Option.bind (exactly is_digit 2 s) (exactly is_upper 2)) (exactly is_digit 4)"

text \<open>\<^verbatim>\<open>^[a-zA-Z]+[.][a-zA-Z]+@sail[.]bokaro[.]com\<close>\<close>

definition re_email_id :: "string \<Rightarrow> string option" where
  "re_email_id s =
     Option.bind (Option.bind (Option.bind (between is_alpha 1 None s) (literal ''.''))
       (between is_alpha 1 None)) (literal ''@sail.bokaro.com'')"

text \<open>\<^verbatim>\<open>^[0-9]{10}\<close>\<close>

definition re_phone_number :: "string \<Rightarrow> string option" where
  "re_phone_number s = exactly is_digit 10 s"

text \<open>\<^verbatim>\<open>^[0-9]{1,20}\<close>\<close>

definition re_account_number :: "string \<Rightarrow> string option" where
  "re_account_number s = between is_digit 1 (Some 20) s"

text \<open>\<^verbatim>\<open>^[A-Z]{4}[0-9]{5,}\<close>\<close>

definition re_ifsc_code :: "string \<Rightarrow> string option" where
  "re_ifsc_code s = Option.bind (exactly is_upper 4 s) (between is_digit 5 None)"


section \<open>Dates\<close>

text \<open>
  \<open>datetime.strptime(s, '%Y-%m-%d')\<close>: the directives become the patterns
  \<^verbatim>\<open>\d\d\d\d\<close>, \<^verbatim>\<open>1[0-2]|0[1-9]|[1-9]\<close> and \<^verbatim>\<open>3[01]|[12]\d|0[1-9]|[1-9]| [1-9]\<close>; the whole
  string must be consumed, and the three numbers must form a date of the calendar with a
  year of at least 1. Every failure is a \<open>ValueError\<close>.
\<close>

definition digit_val :: "char \<Rightarrow> nat" where
  "digit_val c = length (takeWhile (\<lambda>d. d \<noteq> c) ''0123456789'')"

definition is_leap :: "nat \<Rightarrow> bool" where
  "is_leap y = (y mod 4 = 0 \<and> (y mod 100 \<noteq> 0 \<or> y mod 400 = 0))"

definition days_in_month :: "nat \<Rightarrow> nat \<Rightarrow> nat" where
  "days_in_month y m =
     (if m = 2 then (if is_leap y then 29 else 28)
      else if m \<in> set [4, 6, 9, 11] then 30 else 31)"

definition valid_date :: "nat \<Rightarrow> nat \<Rightarrow> nat \<Rightarrow> bool" where
  "valid_date y m d = (1 \<le> y \<and> 1 \<le> m \<and> m \<le> 12 \<and> 1 \<le> d \<and> d \<le> days_in_month y m)"

definition parse_year :: "string \<Rightarrow> (nat \<times> string) option" where
  "parse_year s =
     (case s of
        a # b # c # d # r \<Rightarrow>
          if is_digit a \<and> is_digit b \<and> is_digit c \<and> is_digit d
          then Some (1000 * digit_val a + 100 * digit_val b + 10 * digit_val c + digit_val d, r)
          else None
      | _ \<Rightarrow> None)"

text \<open>The month is followed by \<open>-\<close> in the format, which decides between the alternatives.\<close>

definition parse_month :: "string \<Rightarrow> (nat \<times> string) option" where
  "parse_month s =
     (case s of
        a # b # c # r \<Rightarrow>
          if a = CHR ''1'' \<and> b \<in> set ''012'' \<and> c = CHR ''-'' then Some (10 + digit_val b, c # r)
          else if a = CHR ''0'' \<and> b \<in> set ''123456789'' \<and> c = CHR ''-''
            then Some (digit_val b, c # r)
          else if a \<in> set ''123456789'' \<and> b = CHR ''-'' then Some (digit_val a, b # c # r)
          else None
      | [a, b] \<Rightarrow>
          if a \<in> set ''123456789'' \<and> b = CHR ''-'' then Some (digit_val a, [b]) else None
      | _ \<Rightarrow> None)"

text \<open>The day ends the format: the first alternative that matches is taken.\<close>

definition parse_day :: "string \<Rightarrow> (nat \<times> string) option" where
  "parse_day s =
     (case s of
        [] \<Rightarrow> None
      | [a] \<Rightarrow> if a \<in> set ''123456789'' then Some (digit_val a, []) else None
      | a # b # r \<Rightarrow>
          if a = CHR ''3'' \<and> b \<in> set ''01'' then Some (30 + digit_val b, r)
          else if a \<in> set ''12'' \<and> is_digit b then Some (10 * digit_val a + digit_val b, r)
          else if a = CHR ''0'' \<and> b \<in> set ''123456789'' then Some (digit_val b, r)
          else if a \<in> set ''123456789'' then Some (digit_val a, b # r)
          else if a = CHR '' '' \<and> b \<in> set ''123456789'' then Some (digit_val b, r)
          else None)"

definition strptime_ymd :: "string \<Rightarrow> exn + (nat \<times> nat \<times> nat)" where
  "strptime_ymd s =
     (case parse_year s of
        None \<Rightarrow> Inl ValueError
      | Some (y, r1) \<Rightarrow>
          (case literal ''-'' r1 of
             None \<Rightarrow> Inl ValueError
           | Some r2 \<Rightarrow>
               (case parse_month r2 of
                  None \<Rightarrow> Inl ValueError
                | Some (m, r3) \<Rightarrow>
                    (case literal ''-'' r3 of
                       None \<Rightarrow> Inl ValueError
                     | Some r4 \<Rightarrow>
                         (case parse_day r4 of
                            None \<Rightarrow> Inl ValueError
                          | Some (d, r5) \<Rightarrow>
                              if r5 \<noteq> [] then Inl ValueError
                              else if valid_date y m d then Inr (y, m, d)
                              else Inl ValueError)))))"


section \<open>Rows and their validation\<close>

text \<open>
  A row of \<open>psu_employees.csv\<close>. \<open>employee_id\<close> is read with \<open>int(...)\<close>, every other
  column with \<open>str(...)\<close>.
\<close>

record employee_row =
  employee_id :: cell
  first_name :: "string option"
  last_name :: "string option"
  designation :: "string option"
  department :: "string option"
  grade :: "string option"
  date_of_joining :: "string option"
  quarter_no :: "string option"
  email_id :: "string option"
  phone_number :: "string option"
  account_number :: "string option"
  ifsc_code :: "string option"
  branch_name :: "string option"
  bank_name :: "string option"
  shop :: "string option"

text \<open>A row of \<open>pay_structure.csv\<close>; \<open>import_data\<close> adds the column \<open>annual_income\<close>.\<close>

record pay_row =
  pay_id :: cell
  employee_id :: cell
  base_salary :: cell
  ta :: cell
  da :: cell
  hra :: cell
  stocks :: cell
  vacation_tour :: cell
  uniform_allowance :: cell
  medical_benefits :: cell
  bonus_amount :: cell
  other_allowances :: cell

record pay_row_with_income = pay_row +
  annual_income :: number

text \<open>
  The second component of a validator's result. The program formats a message with the
  value; the model keeps the name of the field, or the exception that the
  \<open>except Exception\<close> clause caught.
\<close>

datatype reason = Invalid string | Validation_error exn

definition validate_ifsc_code :: "string option \<Rightarrow> bool" where
  "validate_ifsc_code c =
     (if pd_isna c then False
      else py_dollar (re_ifsc_code (py_strip (py_str c))))"

text \<open>The body of the \<open>try\<close> block of \<open>validate_employee_data\<close>; only \<open>int(...)\<close> can raise.\<close>

definition validate_employee_body :: "employee_row \<Rightarrow> exn + bool \<times> reason option" where
  "validate_employee_body row =
     (case py_int (employee_row.employee_id row) of
        Inl e \<Rightarrow> Inl e
      | Inr i \<Rightarrow>
          Inr (if \<not> (1000000 \<le> i \<and> i \<le> 9999999) then (False, Some (Invalid ''employee_id''))
               else if \<not> py_dollar (re_name (py_str (first_name row)))
                 then (False, Some (Invalid ''first_name''))
               else if \<not> py_dollar (re_name (py_str (last_name row)))
                 then (False, Some (Invalid ''last_name''))
               else if isl (strptime_ymd (py_str (date_of_joining row)))
                 then (False, Some (Invalid ''date_of_joining''))
               else if py_str (quarter_no row) \<noteq> ''NA''
                       \<and> \<not> py_dollar (re_quarter_no (py_str (quarter_no row)))
                 then (False, Some (Invalid ''quarter_no''))
               else if \<not> py_dollar (re_email_id (py_str (email_id row)))
                 then (False, Some (Invalid ''email_id''))
               else if \<not> py_dollar (re_phone_number (py_str (phone_number row)))
                 then (False, Some (Invalid ''phone_number''))
               else if \<not> validate_ifsc_code (ifsc_code row)
                 then (False, Some (Invalid ''ifsc_code''))
               else if \<not> py_dollar (re_account_number (py_str (account_number row)))
                 then (False, Some (Invalid ''account_number''))
               else (True, None)))"

definition validate_employee_data :: "employee_row \<Rightarrow> bool \<times> reason option" where
  "validate_employee_data row =
     (case validate_employee_body row of
        Inr verdict \<Rightarrow> verdict
      | Inl e \<Rightarrow> (False, Some (Validation_error e)))"

text \<open>
  The loop of \<open>validate_pay_data\<close> over the fields that must not be negative: \<open>Some\<close> of a
  verdict when the loop returns, \<open>None\<close> when it runs to its end.
\<close>

fun non_negative_loop ::
  "'a pay_row_scheme \<Rightarrow> (string \<times> ('a pay_row_scheme \<Rightarrow> cell)) list
     \<Rightarrow> exn + (bool \<times> reason option) option" where
  "non_negative_loop row [] = Inr None"
| "non_negative_loop row ((field, get) # rest) =
     (case py_float (get row) of
        Inl e \<Rightarrow> Inl e
      | Inr v \<Rightarrow>
          if py_lt v (Fin 0) then Inr (Some (False, Some (Invalid field)))
          else non_negative_loop row rest)"

definition validate_pay_body :: "'a pay_row_scheme \<Rightarrow> exn + bool \<times> reason option" where
  "validate_pay_body row =
     (case py_float (base_salary row) of
        Inl e \<Rightarrow> Inl e
      | Inr b \<Rightarrow>
          if py_le b (Fin 20000) then Inr (False, Some (Invalid ''base_salary''))
          else
            (case non_negative_loop row
                    [(''da'', da), (''hra'', hra), (''stocks'', stocks),
                     (''vacation_tour'', vacation_tour), (''medical_benefits'', medical_benefits)] of
               Inl e \<Rightarrow> Inl e
             | Inr (Some verdict) \<Rightarrow> Inr verdict
             | Inr None \<Rightarrow>
                 (case py_float (bonus_amount row) of
                    Inl e \<Rightarrow> Inl e
                  | Inr bonus \<Rightarrow>
                      if py_gt bonus (Fin 25000) then Inr (False, Some (Invalid ''bonus_amount''))
                      else Inr (True, None))))"

definition validate_pay_data :: "'a pay_row_scheme \<Rightarrow> bool \<times> reason option" where
  "validate_pay_data row =
     (case validate_pay_body row of
        Inr verdict \<Rightarrow> verdict
      | Inl e \<Rightarrow> (False, Some (Validation_error e)))"


section \<open>The database session\<close>

text \<open>
  What the program sends to the server: the parameters of the two \<open>INSERT\<close> statements
  (the lists \<open>values\<close> of \<open>import_data\<close>, in column order) and the argument of
  \<open>SELECT calculate_income_tax(%s)\<close>.
\<close>

record employees_values =
  e_employee_id :: int
  e_first_name :: string
  e_last_name :: string
  e_designation :: string
  e_department :: string
  e_grade :: string
  e_date_of_joining :: string
  e_quarter_no :: string
  e_email_id :: string
  e_phone_number :: string
  e_account_number :: string
  e_ifsc_code :: string
  e_branch_name :: string
  e_bank_name :: string
  e_shop :: string

record pay_structure_values =
  p_pay_id :: int
  p_employee_id :: int
  p_base_salary :: number
  p_ta :: number
  p_da :: number
  p_hra :: number
  p_stocks :: number
  p_vacation_tour :: number
  p_uniform_allowance :: number
  p_medical_benefits :: number
  p_bonus_amount :: number
  p_other_allowances :: number
  p_income_tax :: number

text \<open>
  The errors of the server that reach the program as \<open>psycopg2.Error\<close>, which the
  \<open>except Error\<close> clauses of \<open>import_data\<close> catch.
\<close>

datatype db_error =
    Unique_violation
  | Check_violation
  | Foreign_key_violation
  | Numeric_value_out_of_range
  | String_data_right_truncation
  | Invalid_datetime_format
  | Undefined_function
  | Operational_error

text \<open>
  The session behind \<open>self.cur\<close>, with autocommit: each statement either fails and leaves
  the database as it was, or succeeds and gives the next database. The functions are
  parameters of the import: what is proved of \<open>import_data\<close> for an arbitrary session holds
  for every behaviour of the server. The session \<open>postgres\<close> defined further down is the
  one that the schema of \<open>create_tables\<close> describes.
\<close>

record 'db session =
  insert_employees :: "'db \<Rightarrow> employees_values \<Rightarrow> db_error + 'db"
  select_calculate_income_tax :: "'db \<Rightarrow> number \<Rightarrow> db_error + number"
  insert_pay_structure :: "'db \<Rightarrow> pay_structure_values \<Rightarrow> db_error + 'db"


section \<open>The database manager and the import\<close>

text \<open>
  The attributes of \<open>DatabaseManager\<close> that the retry loop and the import use;
  \<open>database\<close> is the content of the database that \<open>self.cur\<close> works on and
  \<open>connected\<close> says whether \<open>self.conn\<close> holds a connection.
\<close>

record 'db manager =
  max_retries :: nat
  retry_delay :: nat
  successful_employee_ids :: "int set"
  connected :: bool
  database :: 'db

definition DatabaseManager_init :: "'db \<Rightarrow> 'db manager" where
  "DatabaseManager_init d =
     \<lparr>max_retries = 5, retry_delay = 3, successful_employee_ids = {},
      connected = False, database = d\<rparr>"

text \<open>The object \<open>self\<close> together with the four counters, local to \<open>import_data\<close>.\<close>

record 'db import_state =
  self :: "'db manager"
  successful_inserts :: nat
  failed_inserts :: nat
  pay_successful :: nat
  pay_failed :: nat

text \<open>\<open>employees_df.fillna('NA')\<close>\<close>

definition fillna_NA :: "string option \<Rightarrow> string option" where
  "fillna_NA c = (case c of None \<Rightarrow> Some ''NA'' | Some s \<Rightarrow> Some s)"

definition employees_fillna :: "employee_row \<Rightarrow> employee_row" where
  "employees_fillna row =
     \<lparr>employee_row.employee_id =
        (case employee_row.employee_id row of Nan \<Rightarrow> Text ''NA'' | c \<Rightarrow> c),
      first_name = fillna_NA (first_name row),
      last_name = fillna_NA (last_name row),
      designation = fillna_NA (designation row),
      department = fillna_NA (department row),
      grade = fillna_NA (grade row),
      date_of_joining = fillna_NA (date_of_joining row),
      quarter_no = fillna_NA (quarter_no row),
      email_id = fillna_NA (email_id row),
      phone_number = fillna_NA (phone_number row),
      account_number = fillna_NA (account_number row),
      ifsc_code = fillna_NA (ifsc_code row),
      branch_name = fillna_NA (branch_name row),
      bank_name = fillna_NA (bank_name row),
      shop = fillna_NA (shop row)\<rparr>"

text \<open>The list \<open>values\<close> of the employee loop.\<close>

definition employee_values :: "employee_row \<Rightarrow> exn + employees_values" where
  "employee_values row =
     (case py_int (employee_row.employee_id row) of
        Inl e \<Rightarrow> Inl e
      | Inr i \<Rightarrow>
          Inr \<lparr>e_employee_id = i,
               e_first_name = py_str (first_name row),
               e_last_name = py_str (last_name row),
               e_designation = py_str (designation row),
               e_department = py_str (department row),
               e_grade = py_str (grade row),
               e_date_of_joining = py_str (date_of_joining row),
               e_quarter_no = py_str (quarter_no row),
               e_email_id = py_str (email_id row),
               e_phone_number = py_str (phone_number row),
               e_account_number = py_str (account_number row),
               e_ifsc_code = py_str (ifsc_code row),
               e_branch_name = py_str (branch_name row),
               e_bank_name = py_str (bank_name row),
               e_shop = py_str (shop row)\<rparr>)"

text \<open>
  One iteration of the loop over \<open>employees_df\<close>. The result is the state after the
  iteration and the exception that left it, if any; an exception that is not a
  \<open>psycopg2.Error\<close> is not caught by the inner \<open>try\<close> and ends \<open>import_data\<close>.
\<close>

definition employee_iteration ::
  "'db session \<Rightarrow> 'db import_state \<Rightarrow> employee_row \<Rightarrow> 'db import_state \<times> exn option" where
  "employee_iteration S st row0 =
     (let row = row0\<lparr>ifsc_code := Some (py_strip (py_str (ifsc_code row0)))\<rparr>
      in if fst (validate_employee_data row) then
           (case employee_values row of
              Inl e \<Rightarrow> (st, Some e)
            | Inr values \<Rightarrow>
                (case insert_employees S (database (self st)) values of
                   Inr d \<Rightarrow>
                     (st\<lparr>self := (self st)
                            \<lparr>database := d,
                             successful_employee_ids :=
                               insert (e_employee_id values) (successful_employee_ids (self st))\<rparr>,
                         successful_inserts := successful_inserts st + 1\<rparr>, None)
                 | Inl err \<Rightarrow> (st\<lparr>failed_inserts := failed_inserts st + 1\<rparr>, None)))
         else (st\<lparr>failed_inserts := failed_inserts st + 1\<rparr>, None))"

fun employee_loop ::
  "'db session \<Rightarrow> 'db import_state \<Rightarrow> employee_row list \<Rightarrow> 'db import_state \<times> exn option" where
  "employee_loop S st [] = (st, None)"
| "employee_loop S st (row # rows) =
     (case employee_iteration S st row of
        (st', Some e) \<Rightarrow> (st', Some e)
      | (st', None) \<Rightarrow> employee_loop S st' rows)"

text \<open>\<open>pay_df[nullable_columns].fillna(0)\<close>\<close>

definition fillna_0 :: "cell \<Rightarrow> cell" where
  "fillna_0 c = (case c of Nan \<Rightarrow> Number 0 | _ \<Rightarrow> c)"

definition pay_fillna :: "pay_row \<Rightarrow> pay_row" where
  "pay_fillna row =
     row\<lparr>ta := fillna_0 (ta row),
         stocks := fillna_0 (stocks row),
         vacation_tour := fillna_0 (vacation_tour row),
         uniform_allowance := fillna_0 (uniform_allowance row),
         other_allowances := fillna_0 (other_allowances row)\<rparr>"

text \<open>
  The column \<open>annual_income\<close>. The arithmetic is that of the data frame: on numbers and
  NaN it is float arithmetic; a column that holds text is not a numeric column, and adding
  it to a numeric one raises \<open>TypeError\<close>, which ends \<open>import_data\<close>. (The model does not
  follow pandas into a frame of which all nine columns are text.)
\<close>

definition is_text :: "cell \<Rightarrow> bool" where
  "is_text c = (case c of Text s \<Rightarrow> True | _ \<Rightarrow> False)"

definition operand :: "cell \<Rightarrow> number" where
  "operand c = (case c of Number x \<Rightarrow> Fin x | _ \<Rightarrow> NaN)"

definition annual_income_of :: "pay_row \<Rightarrow> exn + number" where
  "annual_income_of row =
     (if list_ex is_text
           [base_salary row, ta row, da row, hra row, uniform_allowance row,
            stocks row, vacation_tour row, medical_benefits row, bonus_amount row]
      then Inl TypeError
      else Inr
        (num_add (num_add (num_add (num_add (num_add (num_add (num_add (num_add
           (num_mul (operand (base_salary row)) (Fin 12))
           (num_mul (operand (ta row)) (Fin 12)))
           (num_mul (operand (da row)) (Fin 12)))
           (num_mul (operand (hra row)) (Fin 12)))
           (num_mul (operand (uniform_allowance row)) (Fin 12)))
           (operand (stocks row)))
           (operand (vacation_tour row)))
           (operand (medical_benefits row)))
           (operand (bonus_amount row))))"

fun add_annual_income :: "pay_row list \<Rightarrow> exn + pay_row_with_income list" where
  "add_annual_income [] = Inr []"
| "add_annual_income (row # rows) =
     (case annual_income_of row of
        Inl e \<Rightarrow> Inl e
      | Inr a \<Rightarrow>
          (case add_annual_income rows of
             Inl e \<Rightarrow> Inl e
           | Inr rows' \<Rightarrow> Inr (pay_row.extend row (pay_row_with_income.fields a) # rows')))"

text \<open>
  The tuple \<open>values\<close> of the pay loop. Its conversions stand inside a \<open>try\<close> that catches
  \<open>psycopg2.Error\<close> only, so a \<open>ValueError\<close> of \<open>int\<close> or \<open>float\<close> ends \<open>import_data\<close>.
\<close>

fun raise_or :: "'e + 'a \<Rightarrow> ('a \<Rightarrow> 'e + 'b) \<Rightarrow> 'e + 'b" where
  "raise_or (Inl e) f = Inl e"
| "raise_or (Inr x) f = f x"

definition pay_values :: "'a pay_row_scheme \<Rightarrow> number \<Rightarrow> exn + pay_structure_values" where
  "pay_values row monthly_tax =
     raise_or (py_int (pay_id row)) (\<lambda>v1.
     raise_or (py_int (employee_id row)) (\<lambda>v2.
     raise_or (py_float (base_salary row)) (\<lambda>v3.
     raise_or (py_float (ta row)) (\<lambda>v4.
     raise_or (py_float (da row)) (\<lambda>v5.
     raise_or (py_float (hra row)) (\<lambda>v6.
     raise_or (py_float (stocks row)) (\<lambda>v7.
     raise_or (py_float (vacation_tour row)) (\<lambda>v8.
     raise_or (py_float (uniform_allowance row)) (\<lambda>v9.
     raise_or (py_float (medical_benefits row)) (\<lambda>v10.
     raise_or (py_float (bonus_amount row)) (\<lambda>v11.
     raise_or (py_float (other_allowances row)) (\<lambda>v12.
       Inr \<lparr>p_pay_id = v1, p_employee_id = v2, p_base_salary = v3, p_ta = v4, p_da = v5,
            p_hra = v6, p_stocks = v7, p_vacation_tour = v8, p_uniform_allowance = v9,
            p_medical_benefits = v10, p_bonus_amount = v11, p_other_allowances = v12,
            p_income_tax = monthly_tax\<rparr>))))))))))))"

text \<open>One iteration of the loop over \<open>pay_df\<close>.\<close>

definition pay_iteration ::
  "'db session \<Rightarrow> 'db import_state \<Rightarrow> pay_row_with_income \<Rightarrow> 'db import_state \<times> exn option" where
  "pay_iteration S st row =
     (case py_int (employee_id row) of
        Inl e \<Rightarrow> (st, Some e)
      | Inr i \<Rightarrow>
          if i \<in> successful_employee_ids (self st) then
            if fst (validate_pay_data row) then
              (case select_calculate_income_tax S (database (self st)) (annual_income row) of
                 Inl err \<Rightarrow> (st\<lparr>pay_failed := pay_failed st + 1\<rparr>, None)
               | Inr monthly_tax \<Rightarrow>
                   (case pay_values row monthly_tax of
                      Inl e \<Rightarrow> (st, Some e)
                    | Inr values \<Rightarrow>
                        (case insert_pay_structure S (database (self st)) values of
                           Inr d \<Rightarrow>
                             (st\<lparr>self := (self st)\<lparr>database := d\<rparr>,
                                 pay_successful := pay_successful st + 1\<rparr>, None)
                         | Inl err \<Rightarrow> (st\<lparr>pay_failed := pay_failed st + 1\<rparr>, None))))
            else (st\<lparr>pay_failed := pay_failed st + 1\<rparr>, None)
          else (st\<lparr>pay_failed := pay_failed st + 1\<rparr>, None))"

fun pay_loop ::
  "'db session \<Rightarrow> 'db import_state \<Rightarrow> pay_row_with_income list
     \<Rightarrow> 'db import_state \<times> exn option" where
  "pay_loop S st [] = (st, None)"
| "pay_loop S st (row # rows) =
     (case pay_iteration S st row of
        (st', Some e) \<Rightarrow> (st', Some e)
      | (st', None) \<Rightarrow> pay_loop S st' rows)"

text \<open>
  \<open>import_data\<close>, given the two frames that \<open>pd.read_csv\<close> returned. The counters start
  at zero; the set of accepted identities is the attribute of \<open>self\<close>, as the constructor
  or an earlier call left it.
\<close>

definition import_data ::
  "'db session \<Rightarrow> 'db manager \<Rightarrow> employee_row list \<Rightarrow> pay_row list
     \<Rightarrow> 'db import_state \<times> exn option" where
  "import_data S slf employees_df pay_df =
     (case employee_loop S
             \<lparr>self = slf, successful_inserts = 0, failed_inserts = 0,
              pay_successful = 0, pay_failed = 0\<rparr>
             (map employees_fillna employees_df) of
        (st, Some e) \<Rightarrow> (st, Some e)
      | (st, None) \<Rightarrow>
          (case add_annual_income (map pay_fillna pay_df) of
             Inl e \<Rightarrow> (st, Some e)
           | Inr pay_df' \<Rightarrow> pay_loop S st pay_df'))"


section \<open>The schema of \<open>create_tables\<close>\<close>

text \<open>
  The two tables, with the generated columns of \<open>pay_structure\<close>, and the rules that the
  \<open>CREATE TABLE\<close> statements attach to them. A value is first coerced to the type of its
  column, then the generated columns are computed, then the \<open>CHECK\<close> constraints are
  evaluated, then the keys. The parameters of the program are never \<open>NULL\<close>, so the
  \<open>NOT NULL\<close> constraints and the \<open>COALESCE\<close> calls have nothing to do.
\<close>

record pay_structure_tuple = pay_structure_values +
  employee_pf :: number
  employer_pf :: number
  total_pf :: number
  monthly_salary :: number

record database =
  employees :: "employees_values list"
  pay_structure :: "pay_structure_tuple list"

text \<open>
  \<open>VARCHAR(n)\<close>: a longer string is an error unless the excess is spaces, which are cut.
\<close>

definition pg_varchar :: "nat \<Rightarrow> string \<Rightarrow> db_error + string" where
  "pg_varchar n s =
     (if length s \<le> n then Inr s
      else if list_all (\<lambda>c. c = CHR '' '') (drop n s) then Inr (take n s)
      else Inl String_data_right_truncation)"

text \<open>
  \<open>DATE\<close>: of the strings that the validator lets through, the server reads those of the
  form year-month-day; the one with a blank before a one-digit day is taken to be refused.
\<close>

definition pg_date :: "string \<Rightarrow> db_error + string" where
  "pg_date s =
     (if isl (strptime_ymd s) \<or> CHR '' '' \<in> set s then Inl Invalid_datetime_format
      else Inr s)"

definition pg_integer :: "int \<Rightarrow> db_error + int" where
  "pg_integer i =
     (if - 2147483648 \<le> i \<and> i \<le> 2147483647 then Inr i
      else Inl Numeric_value_out_of_range)"

text \<open>\<open>NUMERIC(10,2)\<close>: rounded to two places; eight digits before the point at most.\<close>

definition pg_numeric_10_2 :: "number \<Rightarrow> db_error + number" where
  "pg_numeric_10_2 v =
     (case v of
        NaN \<Rightarrow> Inr NaN
      | Fin x \<Rightarrow>
          if \<bar>pg_round x 2\<bar> < 100000000 then Inr (Fin (pg_round x 2))
          else Inl Numeric_value_out_of_range)"

definition employees_checks :: "employees_values \<Rightarrow> bool" where
  "employees_checks v =
     (1000000 \<le> e_employee_id v \<and> e_employee_id v \<le> 9999999
      \<and> pg_dollar (re_name (e_first_name v))
      \<and> pg_dollar (re_name (e_last_name v))
      \<and> (pg_dollar (re_quarter_no (e_quarter_no v)) \<or> e_quarter_no v = ''NA'')
      \<and> pg_dollar (re_email_id (e_email_id v))
      \<and> pg_dollar (re_phone_number (e_phone_number v))
      \<and> pg_dollar (re_account_number (e_account_number v))
      \<and> pg_dollar (re_ifsc_code (e_ifsc_code v)))"

definition pg_insert_employees :: "database \<Rightarrow> employees_values \<Rightarrow> db_error + database" where
  "pg_insert_employees d v =
     raise_or (pg_integer (e_employee_id v)) (\<lambda>c1.
     raise_or (pg_varchar 50 (e_first_name v)) (\<lambda>c2.
     raise_or (pg_varchar 50 (e_last_name v)) (\<lambda>c3.
     raise_or (pg_varchar 50 (e_designation v)) (\<lambda>c4.
     raise_or (pg_varchar 50 (e_department v)) (\<lambda>c5.
     raise_or (pg_varchar 10 (e_grade v)) (\<lambda>c6.
     raise_or (pg_date (e_date_of_joining v)) (\<lambda>c7.
     raise_or (pg_varchar 10 (e_quarter_no v)) (\<lambda>c8.
     raise_or (pg_varchar 100 (e_email_id v)) (\<lambda>c9.
     raise_or (pg_varchar 10 (e_phone_number v)) (\<lambda>c10.
     raise_or (pg_varchar 20 (e_account_number v)) (\<lambda>c11.
     raise_or (pg_varchar 20 (e_ifsc_code v)) (\<lambda>c12.
     raise_or (pg_varchar 50 (e_branch_name v)) (\<lambda>c13.
     raise_or (pg_varchar 50 (e_bank_name v)) (\<lambda>c14.
     raise_or (pg_varchar 50 (e_shop v)) (\<lambda>c15.
       let t = \<lparr>e_employee_id = c1, e_first_name = c2, e_last_name = c3, e_designation = c4,
                e_department = c5, e_grade = c6, e_date_of_joining = c7, e_quarter_no = c8,
                e_email_id = c9, e_phone_number = c10, e_account_number = c11,
                e_ifsc_code = c12, e_branch_name = c13, e_bank_name = c14, e_shop = c15\<rparr>
       in if \<not> employees_checks t then Inl Check_violation
          else if e_employee_id t \<in> e_employee_id ` set (employees d) then Inl Unique_violation
          else if e_email_id t \<in> e_email_id ` set (employees d) then Inl Unique_violation
          else Inr (d\<lparr>employees := employees d @ [t]\<rparr>))))))))))))))))"

definition pay_structure_checks :: "'a pay_structure_values_scheme \<Rightarrow> bool" where
  "pay_structure_checks t =
     (pg_gt (p_base_salary t) (Fin 20000)
      \<and> pg_ge (p_da t) (Fin 0)
      \<and> pg_ge (p_hra t) (Fin 0)
      \<and> pg_ge (p_stocks t) (Fin 0)
      \<and> pg_ge (p_vacation_tour t) (Fin 0)
      \<and> pg_ge (p_medical_benefits t) (Fin 0)
      \<and> pg_le (p_bonus_amount t) (Fin 25000))"

definition pg_insert_pay_structure ::
  "database \<Rightarrow> pay_structure_values \<Rightarrow> db_error + database" where
  "pg_insert_pay_structure d v =
     raise_or (pg_integer (p_pay_id v)) (\<lambda>c1.
     raise_or (pg_integer (p_employee_id v)) (\<lambda>c2.
     raise_or (pg_numeric_10_2 (p_base_salary v)) (\<lambda>c3.
     raise_or (pg_numeric_10_2 (p_ta v)) (\<lambda>c4.
     raise_or (pg_numeric_10_2 (p_da v)) (\<lambda>c5.
     raise_or (pg_numeric_10_2 (p_hra v)) (\<lambda>c6.
     raise_or (pg_numeric_10_2 (p_stocks v)) (\<lambda>c7.
     raise_or (pg_numeric_10_2 (p_vacation_tour v)) (\<lambda>c8.
     raise_or (pg_numeric_10_2 (p_uniform_allowance v)) (\<lambda>c9.
     raise_or (pg_numeric_10_2 (p_medical_benefits v)) (\<lambda>c10.
     raise_or (pg_numeric_10_2 (p_bonus_amount v)) (\<lambda>c11.
     raise_or (pg_numeric_10_2 (p_other_allowances v)) (\<lambda>c12.
     raise_or (pg_numeric_10_2 (p_income_tax v)) (\<lambda>c13.
     raise_or (pg_numeric_10_2 (num_mul c3 (Fin (125 / 1000)))) (\<lambda>g1.
     raise_or (pg_numeric_10_2 (num_mul c3 (Fin (125 / 1000)))) (\<lambda>g2.
     raise_or (pg_numeric_10_2 (num_mul c3 (Fin (25 / 100)))) (\<lambda>g3.
     raise_or (pg_numeric_10_2
                 (num_sub (num_sub (num_add (num_add (num_add (num_add c3 c4) c5) c6) c9)
                    (num_mul c3 (Fin (125 / 1000)))) c13)) (\<lambda>g4.
       let t = \<lparr>p_pay_id = c1, p_employee_id = c2, p_base_salary = c3, p_ta = c4, p_da = c5,
                p_hra = c6, p_stocks = c7, p_vacation_tour = c8, p_uniform_allowance = c9,
                p_medical_benefits = c10, p_bonus_amount = c11, p_other_allowances = c12,
                p_income_tax = c13,
                employee_pf = g1, employer_pf = g2, total_pf = g3, monthly_salary = g4\<rparr>
       in if \<not> pay_structure_checks t then Inl Check_violation
          else if p_pay_id t \<in> p_pay_id ` set (pay_structure d) then Inl Unique_violation
          else if p_employee_id t \<notin> e_employee_id ` set (employees d)
            then Inl Foreign_key_violation
          else Inr (d\<lparr>pay_structure := pay_structure d @ [t]\<rparr>))))))))))))))))))"

text \<open>
  \<open>SELECT calculate_income_tax(%s)\<close>: a number is written into the statement as a numeric
  literal. A NaN is written as \<open>'NaN'::float\<close>, and since the function takes a
  \<open>NUMERIC\<close> and the server does not convert \<open>double precision\<close> to it by itself, the
  call is refused.
\<close>

definition pg_select_calculate_income_tax :: "database \<Rightarrow> number \<Rightarrow> db_error + number" where
  "pg_select_calculate_income_tax d x =
     (case x of NaN \<Rightarrow> Inl Undefined_function | Fin a \<Rightarrow> Inr (calculate_income_tax (Fin a)))"

definition postgres :: "database session" where
  "postgres =
     \<lparr>insert_employees = pg_insert_employees,
      select_calculate_income_tax = pg_select_calculate_income_tax,
      insert_pay_structure = pg_insert_pay_structure\<rparr>"


section \<open>Connecting\<close>

text \<open>
  The server as \<open>connect_to_psu_db\<close> meets it: \<open>admin_probe\<close> is what the session that
  \<open>verify_database_exists\<close> opens on the database \<open>postgres\<close> comes to (an error of
  \<open>psycopg2\<close>, or whether the query found \<open>employeedb\<close>), and \<open>connect_succeeds k\<close>
  says whether the call of \<open>psycopg2.connect\<close> in iteration \<open>k\<close> of the loop succeeds.
  What the program does to the world is recorded as a list of events.
\<close>

record server =
  admin_probe :: "db_error + bool"
  connect_succeeds :: "nat \<Rightarrow> bool"

datatype event = Admin_session | Connect nat | Sleep nat

datatype connect_result = Return | Raise_does_not_exist | Raise_error

text \<open>
  \<open>verify_database_exists\<close> uses a connection of its own (\<open>temp_conn\<close>) and leaves
  \<open>self\<close> alone; an error of \<open>psycopg2\<close> is caught and answered with \<open>False\<close>.
\<close>

definition verify_database_exists :: "server \<Rightarrow> event list \<times> bool" where
  "verify_database_exists srv =
     ([Admin_session], (case admin_probe srv of Inl e \<Rightarrow> False | Inr exists \<Rightarrow> exists))"

text \<open>The loop \<open>for attempt in range(self.max_retries)\<close>, over the attempts that remain.\<close>

fun connect_loop ::
  "server \<Rightarrow> 'db manager \<Rightarrow> nat list \<Rightarrow> event list \<times> 'db manager \<times> connect_result" where
  "connect_loop srv slf [] = ([], slf, Return)"
| "connect_loop srv slf (attempt # rest) =
     (if connect_succeeds srv attempt then ([Connect attempt], slf\<lparr>connected := True\<rparr>, Return)
      else if int attempt < int (max_retries slf) - 1 then
        (let wait_time = retry_delay slf * (attempt + 1);
             (events, result) = connect_loop srv slf rest
         in (Connect attempt # Sleep wait_time # events, result))
      else ([Connect attempt], slf, Raise_error))"

definition connect_to_psu_db ::
  "server \<Rightarrow> 'db manager \<Rightarrow> event list \<times> 'db manager \<times> connect_result" where
  "connect_to_psu_db srv slf =
     (let (checked, exists) = verify_database_exists srv
      in if \<not> exists then (checked, slf, Raise_does_not_exist)
         else (let (events, result) = connect_loop srv slf [0..<max_retries slf]
               in (checked @ events, result)))"


section \<open>Notions used in the statements\<close>

text \<open>
  A cell passes a rule of \<open>validate_pay_data\<close> when \<open>float(...)\<close> converts it and the
  comparison that rejects is false.
\<close>

definition passes :: "cell \<Rightarrow> (number \<Rightarrow> bool) \<Rightarrow> bool" where
  "passes c rejects = (case py_float c of Inl e \<Rightarrow> False | Inr v \<Rightarrow> \<not> rejects v)"


text \<open>The row after \<open>row['ifsc_code'] = str(row['ifsc_code']).strip()\<close>.\<close>

definition stripped :: "employee_row \<Rightarrow> employee_row" where
  "stripped row = row\<lparr>ifsc_code := Some (py_strip (py_str (ifsc_code row)))\<rparr>"

text \<open>
  An employee row is accepted in the database \<open>d\<close> when it passes the local validation
  and the server carries out the \<open>INSERT\<close>.
\<close>

definition accepted_employee :: "'db session \<Rightarrow> 'db \<Rightarrow> employee_row \<Rightarrow> bool" where
  "accepted_employee S d row =
     (fst (validate_employee_data (stripped row))
      \<and> (case employee_values (stripped row) of
            Inl e \<Rightarrow> False
          | Inr values \<Rightarrow> \<not> isl (insert_employees S d values)))"

text \<open>The rows of the end-to-end scenario of the specification.\<close>

definition scenario_employee :: employee_row where
  "scenario_employee =
     \<lparr>employee_row.employee_id = Number 1234567,
      first_name = Some ''Arjun'', last_name = Some ''Rao'',
      designation = Some ''Manager'', department = Some ''Finance'', grade = None,
      date_of_joining = Some ''2020-01-15'', quarter_no = Some ''NA'',
      email_id = Some ''arjun.rao@sail.bokaro.com'', phone_number = Some ''9876543210'',
      account_number = Some ''123456789'', ifsc_code = Some ''SBIN00001'',
      branch_name = Some ''Bokaro'', bank_name = Some ''SBI'', shop = Some ''CRM''\<rparr>"

definition scenario_pay :: pay_row where
  "scenario_pay =
     \<lparr>pay_id = Number 1, employee_id = Number 1234567, base_salary = Number 50000,
      ta = Nan, da = Number 10000, hra = Number 15000, stocks = Nan, vacation_tour = Nan,
      uniform_allowance = Nan, medical_benefits = Number 5000, bonus_amount = Number 8000,
      other_allowances = Nan\<rparr>"

definition empty_database :: database where
  "empty_database = \<lparr>employees = [], pay_structure = []\<rparr>"

text \<open>The parameters of the \<open>INSERT\<close> for the employee of the scenario.\<close>

definition scenario_values :: employees_values where
  "scenario_values =
     \<lparr>e_employee_id = 1234567, e_first_name = ''Arjun'', e_last_name = ''Rao'',
      e_designation = ''Manager'', e_department = ''Finance'', e_grade = ''NA'',
      e_date_of_joining = ''2020-01-15'', e_quarter_no = ''NA'',
      e_email_id = ''arjun.rao@sail.bokaro.com'', e_phone_number = ''9876543210'',
      e_account_number = ''123456789'', e_ifsc_code = ''SBIN00001'',
      e_branch_name = ''Bokaro'', e_bank_name = ''SBI'', e_shop = ''CRM''\<rparr>"

text \<open>The state of an import that has accepted the employee of the scenario.\<close>

definition scenario_state :: "database import_state" where
  "scenario_state =
     fst (import_data postgres (DatabaseManager_init empty_database) [scenario_employee] [])"

text \<open>The pay row of the scenario as the pay loop meets it.\<close>

definition scenario_pay_with_income :: pay_row_with_income where
  "scenario_pay_with_income =
     pay_row.extend (pay_fillna scenario_pay) (pay_row_with_income.fields (Fin 913000))"

text \<open>
  The parameters of the \<open>INSERT\<close> for the pay row of the scenario with negative numbers
  in the three allowances that are not validated.
\<close>

definition negative_values :: pay_structure_values where
  "negative_values =
     \<lparr>p_pay_id = 1, p_employee_id = 1234567, p_base_salary = Fin 50000, p_ta = Fin (- 5),
      p_da = Fin 10000, p_hra = Fin 15000, p_stocks = Fin 0, p_vacation_tour = Fin 0,
      p_uniform_allowance = Fin (- 1), p_medical_benefits = Fin 5000, p_bonus_amount = Fin 8000,
      p_other_allowances = Fin (- 2), p_income_tax = Fin (7825 / 2)\<rparr>"

text \<open>
  A pay row names an unknown employee when its \<open>employee_id\<close> is an integer outside the
  set of accepted identities.
\<close>

definition unknown_employee :: "int set \<Rightarrow> 'a pay_row_scheme \<Rightarrow> bool" where
  "unknown_employee ids row =
     (case py_int (employee_id row) of Inl e \<Rightarrow> False | Inr i \<Rightarrow> i \<notin> ids)"


text \<open>
  The events of \<open>n\<close> failed attempts, each followed by its wait: attempt number
  \<open>k + 1\<close> is followed by a sleep of \<open>delay * (k + 1)\<close> seconds.
\<close>

definition retry_prefix :: "nat \<Rightarrow> nat \<Rightarrow> event list" where
  "retry_prefix delay n = concat (map (\<lambda>k. [Connect k, Sleep (delay * (k + 1))]) [0..<n])"

text \<open>The events that are calls of \<open>psycopg2.connect\<close> on \<open>employeedb\<close>.\<close>

definition is_connect :: "event \<Rightarrow> bool" where
  "is_connect e = (case e of Connect k \<Rightarrow> True | _ \<Rightarrow> False)"

text \<open>Two servers: one that lets the third attempt through, one without the database.\<close>

definition server_third_attempt :: server where
  "server_third_attempt = \<lparr>admin_probe = Inr True, connect_succeeds = (\<lambda>k. k = 2)\<rparr>"

definition server_without_database :: server where
  "server_without_database = \<lparr>admin_probe = Inr False, connect_succeeds = (\<lambda>k. True)\<rparr>"


section \<open>Properties of the income tax function\<close>

lemma annual_tax_marginal: "annual_tax (Fin x) = Fin (marginal_annual_tax x)"
  by (simp add: annual_tax_def marginal_annual_tax_def band_portion_def)

lemma marginal_annual_tax_nonneg: "0 \<le> marginal_annual_tax x"
  by (simp add: marginal_annual_tax_def band_portion_def)

lemma band_portion_excess:
  "lo \<le> hi \<Longrightarrow> band_portion lo hi x = excess lo x - excess hi x"
  unfolding band_portion_def excess_def max_def min_def by (simp split: if_splits)

lemma marginal_annual_tax_excess:
  "marginal_annual_tax x =
     5 / 100 * (excess 300000 x + excess 600000 x + excess 900000 x + excess 1200000 x)
     + 10 / 100 * excess 1500000 x"
proof -
  have "max 0 (x - 1500000) = excess 1500000 x"
    by (simp add: excess_def)
  then show ?thesis
    unfolding marginal_annual_tax_def by (simp add: band_portion_excess field_simps)
qed

lemma excess_mono: "x \<le> y \<Longrightarrow> excess b x \<le> excess b y"
  by (simp add: excess_def max_def)

lemma excess_lipschitz: "x \<le> y \<Longrightarrow> excess b y - excess b x \<le> y - x"
  by (simp add: excess_def max_def)

lemma marginal_annual_tax_mono:
  assumes "x \<le> y"
  shows "marginal_annual_tax x \<le> marginal_annual_tax y"
  using excess_mono [OF assms, of 300000] excess_mono [OF assms, of 600000]
    excess_mono [OF assms, of 900000] excess_mono [OF assms, of 1200000]
    excess_mono [OF assms, of 1500000]
  unfolding marginal_annual_tax_excess by (simp add: field_simps)

lemma marginal_annual_tax_lipschitz:
  assumes "x \<le> y"
  shows "marginal_annual_tax y - marginal_annual_tax x \<le> 3 / 10 * (y - x)"
  using excess_lipschitz [OF assms, of 300000] excess_lipschitz [OF assms, of 600000]
    excess_lipschitz [OF assms, of 900000] excess_lipschitz [OF assms, of 1200000]
    excess_lipschitz [OF assms, of 1500000]
  unfolding marginal_annual_tax_excess by (simp add: field_simps)

lemma pg_round_nonneg_eq: "0 \<le> x \<Longrightarrow> pg_round x 2 = of_int \<lfloor>x * 100 + 1 / 2\<rfloor> / 100"
  by (cases "x = 0") (simp_all add: pg_round_def)

lemma pg_round_mono_nonneg: "0 \<le> x \<Longrightarrow> x \<le> y \<Longrightarrow> pg_round x 2 \<le> pg_round y 2"
proof -
  assume a: "0 \<le> x" "x \<le> y"
  then have "\<lfloor>x * 100 + 1 / 2\<rfloor> \<le> \<lfloor>y * 100 + 1 / 2\<rfloor>"
    by (intro floor_mono) simp
  then have "(of_int \<lfloor>x * 100 + 1 / 2\<rfloor> :: real) \<le> of_int \<lfloor>y * 100 + 1 / 2\<rfloor>"
    by simp
  with a show ?thesis
    by (simp add: pg_round_nonneg_eq divide_right_mono)
qed

lemma pg_round_near:
  assumes "0 \<le> x"
  shows "x - 1 / 200 \<le> pg_round x 2" and "pg_round x 2 \<le> x + 1 / 200"
proof -
  let ?f = "\<lfloor>x * 100 + 1 / 2\<rfloor>"
  have lo: "x * 100 + 1 / 2 < of_int ?f + 1" by linarith
  have hi: "of_int ?f \<le> x * 100 + 1 / 2" by linarith
  have eq: "pg_round x 2 = of_int ?f / 100" using assms by (rule pg_round_nonneg_eq)
  show "x - 1 / 200 \<le> pg_round x 2" using lo unfolding eq by linarith
  show "pg_round x 2 \<le> x + 1 / 200" using hi unfolding eq by linarith
qed

lemma calculate_income_tax_Fin:
  "calculate_income_tax (Fin x) = Fin (spec_monthly_tax x)"
  by (simp add: calculate_income_tax_def annual_tax_marginal spec_monthly_tax_def)

lemma spec_monthly_tax_mono: "x \<le> y \<Longrightarrow> spec_monthly_tax x \<le> spec_monthly_tax y"
  unfolding spec_monthly_tax_def
  by (intro pg_round_mono_nonneg divide_right_mono marginal_annual_tax_mono)
     (simp_all add: marginal_annual_tax_nonneg)

lemma spec_monthly_tax_close:
  assumes "x \<le> y"
  shows "spec_monthly_tax y - spec_monthly_tax x \<le> 3 / 10 * (y - x) / 12 + 1 / 100"
proof -
  have a: "spec_monthly_tax y \<le> marginal_annual_tax y / 12 + 1 / 200"
    unfolding spec_monthly_tax_def
    by (rule pg_round_near) (simp add: marginal_annual_tax_nonneg)
  have b: "marginal_annual_tax x / 12 - 1 / 200 \<le> spec_monthly_tax x"
    unfolding spec_monthly_tax_def
    by (rule pg_round_near) (simp add: marginal_annual_tax_nonneg)
  have c: "marginal_annual_tax y - marginal_annual_tax x \<le> 3 / 10 * (y - x)"
    using assms by (rule marginal_annual_tax_lipschitz)
  from a b c show ?thesis by linarith
qed

text \<open>
  C1. The monthly income tax is the marginal six-band computation on the annual income
  (0% up to 300000, 5% from 300000 to 600000, 10% from 600000 to 900000, 15% from 900000
  to 1200000, 20% from 1200000 to 1500000, 30% above 1500000), summed over the bands,
  divided by 12 and rounded to 2 decimal places; for the annual income 913000 it is
  3912.50.
\<close>

theorem calculate_income_tax_marginal:
  "(\<forall>x. calculate_income_tax (Fin x) = Fin (pg_round (marginal_annual_tax x / 12) 2))
   \<and> calculate_income_tax (Fin 913000) = Fin (391250 / 100)"
proof
  show "\<forall>x. calculate_income_tax (Fin x) = Fin (pg_round (marginal_annual_tax x / 12) 2)"
    by (simp add: calculate_income_tax_def annual_tax_marginal)
  show "calculate_income_tax (Fin 913000) = Fin (391250 / 100)"
    by (simp add: calculate_income_tax_def annual_tax_def pg_round_def)
qed

text \<open>
  C8. The monthly income tax is a function of the annual income alone (deterministic) and
  monotonic non-decreasing: for annual incomes \<open>x \<le> y\<close> the tax of \<open>x\<close> is at most the
  tax of \<open>y\<close>. It is continuous up to rounding: the two taxes differ by at most the top
  rate on the difference of the incomes, per month, plus one unit of the rounding; and at
  each of the five band boundaries the value the code computes (by the lower band) is the
  upper band's formula evaluated at the boundary.
\<close>

theorem calculate_income_tax_monotone:
  "(\<forall>x y. x \<le> y \<longrightarrow>
      (\<exists>a b. calculate_income_tax (Fin x) = Fin a \<and> calculate_income_tax (Fin y) = Fin b
         \<and> a \<le> b \<and> b - a \<le> 30 / 100 * (y - x) / 12 + 1 / 100))
   \<and> calculate_income_tax (Fin 300000)
       = Fin (pg_round ((300000 - 300000) * (5 / 100) / 12) 2)
   \<and> calculate_income_tax (Fin 600000)
       = Fin (pg_round ((15000 + (600000 - 600000) * (10 / 100)) / 12) 2)
   \<and> calculate_income_tax (Fin 900000)
       = Fin (pg_round ((45000 + (900000 - 900000) * (15 / 100)) / 12) 2)
   \<and> calculate_income_tax (Fin 1200000)
       = Fin (pg_round ((90000 + (1200000 - 1200000) * (20 / 100)) / 12) 2)
   \<and> calculate_income_tax (Fin 1500000)
       = Fin (pg_round ((150000 + (1500000 - 1500000) * (30 / 100)) / 12) 2)"
proof (intro conjI allI impI)
  fix x y :: real
  assume le: "x \<le> y"
  have "spec_monthly_tax x \<le> spec_monthly_tax y"
    using le by (rule spec_monthly_tax_mono)
  moreover have "spec_monthly_tax y - spec_monthly_tax x \<le> 30 / 100 * (y - x) / 12 + 1 / 100"
    using spec_monthly_tax_close [OF le] by simp
  ultimately show "\<exists>a b. calculate_income_tax (Fin x) = Fin a
      \<and> calculate_income_tax (Fin y) = Fin b
      \<and> a \<le> b \<and> b - a \<le> 30 / 100 * (y - x) / 12 + 1 / 100"
    by (simp add: calculate_income_tax_Fin)
next
  show "calculate_income_tax (Fin 300000)
      = Fin (pg_round ((300000 - 300000) * (5 / 100) / 12) 2)"
    by (simp add: calculate_income_tax_def annual_tax_def)
next
  show "calculate_income_tax (Fin 600000)
      = Fin (pg_round ((15000 + (600000 - 600000) * (10 / 100)) / 12) 2)"
    by (simp add: calculate_income_tax_def annual_tax_def)
next
  show "calculate_income_tax (Fin 900000)
      = Fin (pg_round ((45000 + (900000 - 900000) * (15 / 100)) / 12) 2)"
    by (simp add: calculate_income_tax_def annual_tax_def)
next
  show "calculate_income_tax (Fin 1200000)
      = Fin (pg_round ((90000 + (1200000 - 1200000) * (20 / 100)) / 12) 2)"
    by (simp add: calculate_income_tax_def annual_tax_def)
next
  show "calculate_income_tax (Fin 1500000)
      = Fin (pg_round ((150000 + (1500000 - 1500000) * (30 / 100)) / 12) 2)"
    by (simp add: calculate_income_tax_def annual_tax_def)
qed

theorem calculate_income_tax_monotone_witness:
  "(600000 :: real) \<le> 913000
   \<and> (\<exists>a b. calculate_income_tax (Fin 600000) = Fin a
         \<and> calculate_income_tax (Fin 913000) = Fin b
         \<and> a \<le> b \<and> b - a \<le> 30 / 100 * (913000 - 600000) / 12 + 1 / 100)"
proof -
  have le: "(600000 :: real) \<le> 913000" by simp
  from calculate_income_tax_monotone
  have "\<forall>x y. x \<le> y \<longrightarrow>
      (\<exists>a b. calculate_income_tax (Fin x) = Fin a \<and> calculate_income_tax (Fin y) = Fin b
         \<and> a \<le> b \<and> b - a \<le> 30 / 100 * (y - x) / 12 + 1 / 100)"
    by (rule conjunct1)
  with le show ?thesis by blast
qed


section \<open>Properties of the validation of pay rows\<close>

lemma passes_simps:
  "passes (Number x) rejects = (\<not> rejects (Fin x))"
  "passes Nan rejects = (\<not> rejects NaN)"
  "passes (Text s) rejects = False"
  by (simp_all add: passes_def py_float_def)

lemma validate_pay_body_Inr:
  "validate_pay_body row = Inr (True, None) \<longleftrightarrow>
     passes (base_salary row) (\<lambda>v. py_le v (Fin 20000))
     \<and> passes (da row) (\<lambda>v. py_lt v (Fin 0))
     \<and> passes (hra row) (\<lambda>v. py_lt v (Fin 0))
     \<and> passes (stocks row) (\<lambda>v. py_lt v (Fin 0))
     \<and> passes (vacation_tour row) (\<lambda>v. py_lt v (Fin 0))
     \<and> passes (medical_benefits row) (\<lambda>v. py_lt v (Fin 0))
     \<and> passes (bonus_amount row) (\<lambda>v. py_gt v (Fin 25000))"
  by (simp add: validate_pay_body_def passes_def split: sum.split option.split)

lemma validate_pay_body_fst:
  "validate_pay_body row = Inr (b, r) \<Longrightarrow> b \<Longrightarrow> r = None"
  by (auto simp add: validate_pay_body_def split: sum.splits option.splits if_splits)

lemma validate_pay_data_accepts:
  "validate_pay_data row = (True, None) \<longleftrightarrow> validate_pay_body row = Inr (True, None)"
  by (simp add: validate_pay_data_def split: sum.split)

lemma validate_pay_data_fst:
  "fst (validate_pay_data row) \<longleftrightarrow> validate_pay_data row = (True, None)"
proof (cases "validate_pay_body row")
  case (Inl e)
  then show ?thesis by (simp add: validate_pay_data_def)
next
  case (Inr v)
  obtain b r where v: "v = (b, r)" by (cases v)
  from Inr v validate_pay_body_fst [of row b r] show ?thesis
    by (auto simp add: validate_pay_data_def)
qed

lemmas validate_pay_data_passes =
  validate_pay_data_accepts [unfolded validate_pay_body_Inr]

text \<open>
  C7. With all other pay fields valid, a pay row with \<open>base_salary\<close> equal to 20000 is
  rejected and one with 20000.01 is accepted; a pay row with \<open>bonus_amount\<close> equal to 25000
  is accepted and one with 25000.01 is rejected.
\<close>

theorem validate_pay_data_bounds:
  assumes "validate_pay_data row = (True, None)"
  shows "validate_pay_data (row\<lparr>base_salary := Number 20000\<rparr>)
           = (False, Some (Invalid ''base_salary''))
         \<and> validate_pay_data (row\<lparr>base_salary := Number (2000001 / 100)\<rparr>) = (True, None)
         \<and> validate_pay_data (row\<lparr>bonus_amount := Number 25000\<rparr>) = (True, None)
         \<and> validate_pay_data (row\<lparr>bonus_amount := Number (2500001 / 100)\<rparr>)
           = (False, Some (Invalid ''bonus_amount''))"
proof (intro conjI)
  from assms have p: "passes (base_salary row) (\<lambda>v. py_le v (Fin 20000))"
    "passes (da row) (\<lambda>v. py_lt v (Fin 0))"
    "passes (hra row) (\<lambda>v. py_lt v (Fin 0))"
    "passes (stocks row) (\<lambda>v. py_lt v (Fin 0))"
    "passes (vacation_tour row) (\<lambda>v. py_lt v (Fin 0))"
    "passes (medical_benefits row) (\<lambda>v. py_lt v (Fin 0))"
    "passes (bonus_amount row) (\<lambda>v. py_gt v (Fin 25000))"
    by (simp_all add: validate_pay_data_passes)
  show "validate_pay_data (row\<lparr>base_salary := Number 20000\<rparr>)
      = (False, Some (Invalid ''base_salary''))"
    by (simp add: validate_pay_data_def validate_pay_body_def py_float_def)
  show "validate_pay_data (row\<lparr>base_salary := Number (2000001 / 100)\<rparr>) = (True, None)"
    using p by (simp add: validate_pay_data_passes passes_simps)
  show "validate_pay_data (row\<lparr>bonus_amount := Number 25000\<rparr>) = (True, None)"
    using p by (simp add: validate_pay_data_passes passes_simps py_gt_def)
  from p show "validate_pay_data (row\<lparr>bonus_amount := Number (2500001 / 100)\<rparr>)
      = (False, Some (Invalid ''bonus_amount''))"
    by (simp add: validate_pay_data_def validate_pay_body_def passes_def py_float_def py_gt_def
        split: sum.splits)
qed

lemma scenario_pay_valid: "validate_pay_data scenario_pay = (True, None)"
  by (simp add: validate_pay_data_passes scenario_pay_def passes_simps py_gt_def)

theorem validate_pay_data_bounds_witness:
  "validate_pay_data scenario_pay = (True, None)
   \<and> validate_pay_data (scenario_pay\<lparr>base_salary := Number 20000\<rparr>)
       = (False, Some (Invalid ''base_salary''))
   \<and> validate_pay_data (scenario_pay\<lparr>base_salary := Number (2000001 / 100)\<rparr>) = (True, None)
   \<and> validate_pay_data (scenario_pay\<lparr>bonus_amount := Number 25000\<rparr>) = (True, None)
   \<and> validate_pay_data (scenario_pay\<lparr>bonus_amount := Number (2500001 / 100)\<rparr>)
       = (False, Some (Invalid ''bonus_amount''))"
  using validate_pay_data_bounds [OF scenario_pay_valid] scenario_pay_valid by simp

section \<open>What the server stores\<close>

lemma raise_or_Inr: "raise_or x f = Inr y \<longleftrightarrow> (\<exists>a. x = Inr a \<and> f a = Inr y)"
  by (cases x) simp_all

lemma pg_insert_pay_structure_stores:
  assumes "pg_insert_pay_structure d v = Inr d'"
  shows "\<exists>t. d' = d\<lparr>pay_structure := pay_structure d @ [t]\<rparr>
      \<and> pg_numeric_10_2 (p_ta v) = Inr (p_ta t)
      \<and> pg_numeric_10_2 (p_uniform_allowance v) = Inr (p_uniform_allowance t)
      \<and> pg_numeric_10_2 (p_other_allowances v) = Inr (p_other_allowances t)
      \<and> pg_numeric_10_2 (p_income_tax v) = Inr (p_income_tax t)"
  using assms unfolding pg_insert_pay_structure_def raise_or_Inr Let_def
  by (auto split: if_splits)

lemma pg_numeric_10_2_Fin: "pg_numeric_10_2 (Fin x) = Inr y \<Longrightarrow> y = Fin (pg_round x 2)"
  by (simp add: pg_numeric_10_2_def split: if_splits)

lemma pay_values_Inr:
  assumes "pay_values row tax = Inr v"
  shows "py_float (ta row) = Inr (p_ta v)"
    and "py_float (uniform_allowance row) = Inr (p_uniform_allowance v)"
    and "py_float (other_allowances row) = Inr (p_other_allowances v)"
    and "p_income_tax v = tax"
  using assms unfolding pay_values_def raise_or_Inr by auto


lemma validate_pay_data_update_unchecked:
  "validate_pay_data (row\<lparr>ta := a, uniform_allowance := b, other_allowances := c\<rparr>)
     = validate_pay_data row"
  by (simp add: validate_pay_data_def validate_pay_body_def
      cong: if_cong sum.case_cong option.case_cong)

lemma pay_iteration_postgres_inserts:
  assumes "py_int (employee_id row) = Inr i" "i \<in> successful_employee_ids (self st)"
    and "validate_pay_data row = (True, None)"
    and "pg_select_calculate_income_tax (database (self st)) (annual_income row) = Inr tax"
    and "pay_values row tax = Inr v"
    and "pg_insert_pay_structure (database (self st)) v = Inr d'"
  shows "pay_iteration postgres st row
           = (st\<lparr>self := (self st)\<lparr>database := d'\<rparr>, pay_successful := pay_successful st + 1\<rparr>,
              None)"
  using assms by (simp add: pay_iteration_def postgres_def)

text \<open>
  C10. \<open>validate_pay_data\<close> checks \<open>base_salary\<close>, \<open>da\<close>, \<open>hra\<close>, \<open>stocks\<close>,
  \<open>vacation_tour\<close>, \<open>medical_benefits\<close> and \<open>bonus_amount\<close> only: a pay row whose
  checked fields pass their rules gets \<open>(True, None)\<close> whatever numbers, negative ones
  included, stand in \<open>ta\<close>, \<open>uniform_allowance\<close> and \<open>other_allowances\<close>. When the
  employee is known and the server carries out the \<open>INSERT\<close>, the row is counted as
  successful and the table holds the three values as given (rounded to the two places of the
  column), negative or not.
\<close>

theorem unchecked_allowances_accepted:
  fixes row :: pay_row_with_income and a b c :: real
  defines "row' \<equiv> row\<lparr>ta := Number a, uniform_allowance := Number b, other_allowances := Number c\<rparr>"
  assumes "passes (base_salary row) (\<lambda>v. py_le v (Fin 20000))"
    and "passes (da row) (\<lambda>v. py_lt v (Fin 0))"
    and "passes (hra row) (\<lambda>v. py_lt v (Fin 0))"
    and "passes (stocks row) (\<lambda>v. py_lt v (Fin 0))"
    and "passes (vacation_tour row) (\<lambda>v. py_lt v (Fin 0))"
    and "passes (medical_benefits row) (\<lambda>v. py_lt v (Fin 0))"
    and "passes (bonus_amount row) (\<lambda>v. py_gt v (Fin 25000))"
  shows "validate_pay_data row' = (True, None)
     \<and> (py_int (employee_id row) = Inr i \<and> i \<in> successful_employee_ids (self st)
          \<and> pg_select_calculate_income_tax (database (self st)) (annual_income row) = Inr tax
          \<and> pay_values row' tax = Inr v
          \<and> pg_insert_pay_structure (database (self st)) v = Inr d'
        \<longrightarrow> pay_iteration postgres st row'
              = (st\<lparr>self := (self st)\<lparr>database := d'\<rparr>,
                    pay_successful := pay_successful st + 1\<rparr>, None)
            \<and> (\<exists>t. d' = (database (self st))
                       \<lparr>pay_structure := pay_structure (database (self st)) @ [t]\<rparr>
                  \<and> p_ta t = Fin (pg_round a 2)
                  \<and> p_uniform_allowance t = Fin (pg_round b 2)
                  \<and> p_other_allowances t = Fin (pg_round c 2)))"
proof (intro conjI impI)
  have "validate_pay_data row = (True, None)"
    using assms(2-8) by (simp add: validate_pay_data_passes)
  then show valid: "validate_pay_data row' = (True, None)"
    by (simp add: row'_def validate_pay_data_update_unchecked)
  assume h: "py_int (employee_id row) = Inr i \<and> i \<in> successful_employee_ids (self st)
      \<and> pg_select_calculate_income_tax (database (self st)) (annual_income row) = Inr tax
      \<and> pay_values row' tax = Inr v
      \<and> pg_insert_pay_structure (database (self st)) v = Inr d'"
  have id: "py_int (employee_id row') = Inr i" and inc: "annual_income row' = annual_income row"
    using h by (simp_all add: row'_def)
  from h have mem: "i \<in> successful_employee_ids (self st)"
    and sel: "pg_select_calculate_income_tax (database (self st)) (annual_income row') = Inr tax"
    and pv: "pay_values row' tax = Inr v"
    and ins: "pg_insert_pay_structure (database (self st)) v = Inr d'"
    by (simp_all add: inc)
  show "pay_iteration postgres st row'
      = (st\<lparr>self := (self st)\<lparr>database := d'\<rparr>, pay_successful := pay_successful st + 1\<rparr>, None)"
    by (rule pay_iteration_postgres_inserts [OF id mem valid sel pv ins])
  from h have pv0: "pay_values row' tax = Inr v"
    by simp
  have v: "p_ta v = Fin a" "p_uniform_allowance v = Fin b" "p_other_allowances v = Fin c"
    using pay_values_Inr(1-3) [OF pv0] by (simp_all add: row'_def py_float_def)
  from h obtain t where t: "d' = (database (self st))
        \<lparr>pay_structure := pay_structure (database (self st)) @ [t]\<rparr>"
      "pg_numeric_10_2 (p_ta v) = Inr (p_ta t)"
      "pg_numeric_10_2 (p_uniform_allowance v) = Inr (p_uniform_allowance t)"
      "pg_numeric_10_2 (p_other_allowances v) = Inr (p_other_allowances t)"
    using pg_insert_pay_structure_stores [of "database (self st)" v d'] by blast
  from t v show "\<exists>t. d' = (database (self st))
        \<lparr>pay_structure := pay_structure (database (self st)) @ [t]\<rparr>
      \<and> p_ta t = Fin (pg_round a 2)
      \<and> p_uniform_allowance t = Fin (pg_round b 2)
      \<and> p_other_allowances t = Fin (pg_round c 2)"
    by (auto dest: pg_numeric_10_2_Fin)
qed

lemma scenario_state_eq:
  "scenario_state =
     \<lparr>self = \<lparr>max_retries = 5, retry_delay = 3, successful_employee_ids = {1234567},
               connected = False,
               database = \<lparr>employees = [scenario_values], pay_structure = []\<rparr>\<rparr>,
      successful_inserts = 1, failed_inserts = 0, pay_successful = 0, pay_failed = 0\<rparr>"
  by code_simp

lemma scenario_pay_with_income_eq:
  "scenario_pay_with_income =
     \<lparr>pay_id = Number 1, employee_id = Number 1234567, base_salary = Number 50000,
      ta = Number 0, da = Number 10000, hra = Number 15000, stocks = Number 0,
      vacation_tour = Number 0, uniform_allowance = Number 0, medical_benefits = Number 5000,
      bonus_amount = Number 8000, other_allowances = Number 0, annual_income = Fin 913000\<rparr>"
  by code_simp

lemma tax_913000: "calculate_income_tax (Fin 913000) = Fin (7825 / 2)"
  by (simp add: calculate_income_tax_def annual_tax_def pg_round_def)

lemma pv: "pay_values (scenario_pay_with_income
        \<lparr>ta := Number (- 5), uniform_allowance := Number (- 1), other_allowances := Number (- 2)\<rparr>)
      (Fin (7825 / 2)) = Inr negative_values"
  by (simp add: scenario_pay_with_income_eq pay_values_def py_int_def py_float_def negative_values_def)

lemma ins: "\<not> isl (pg_insert_pay_structure \<lparr>employees = [scenario_values], pay_structure = []\<rparr> negative_values)"
  by code_simp

lemma pg_round_examples:
  "pg_round (- 5) 2 = - 5" "pg_round (- 1) 2 = - 1" "pg_round (- 2) 2 = - 2"
  by (simp_all add: pg_round_def)

theorem unchecked_allowances_accepted_witness:
  "validate_pay_data
     (scenario_pay_with_income
        \<lparr>ta := Number (- 5), uniform_allowance := Number (- 1), other_allowances := Number (- 2)\<rparr>)
     = (True, None)
   \<and> (\<exists>t. database (self (fst (pay_iteration postgres scenario_state
              (scenario_pay_with_income
                 \<lparr>ta := Number (- 5), uniform_allowance := Number (- 1),
                    other_allowances := Number (- 2)\<rparr>))))
           = \<lparr>employees = [scenario_values], pay_structure = [t]\<rparr>
         \<and> p_ta t = Fin (- 5) \<and> p_uniform_allowance t = Fin (- 1)
         \<and> p_other_allowances t = Fin (- 2))"
proof -
  let ?row = scenario_pay_with_income
  let ?row' = "?row\<lparr>ta := Number (- 5), uniform_allowance := Number (- 1),
    other_allowances := Number (- 2)\<rparr>"
  let ?d = "\<lparr>employees = [scenario_values], pay_structure = []\<rparr>"
  have p: "passes (base_salary ?row) (\<lambda>v. py_le v (Fin 20000))"
    "passes (da ?row) (\<lambda>v. py_lt v (Fin 0))"
    "passes (hra ?row) (\<lambda>v. py_lt v (Fin 0))"
    "passes (stocks ?row) (\<lambda>v. py_lt v (Fin 0))"
    "passes (vacation_tour ?row) (\<lambda>v. py_lt v (Fin 0))"
    "passes (medical_benefits ?row) (\<lambda>v. py_lt v (Fin 0))"
    "passes (bonus_amount ?row) (\<lambda>v. py_gt v (Fin 25000))"
    by (simp_all add: scenario_pay_with_income_eq passes_simps py_gt_def)
  have d: "database (self scenario_state) = ?d"
    by (simp add: scenario_state_eq)
  have i: "py_int (employee_id ?row) = Inr 1234567"
    and m: "1234567 \<in> successful_employee_ids (self scenario_state)"
    by (simp_all add: scenario_pay_with_income_eq py_int_def scenario_state_eq)
  have inc: "pg_select_calculate_income_tax (database (self scenario_state))
      (annual_income ?row) = Inr (Fin (7825 / 2))"
    by (simp add: scenario_pay_with_income_eq pg_select_calculate_income_tax_def tax_913000)
  have v: "pay_values ?row' (Fin (7825 / 2)) = Inr negative_values"
    by (rule pv)
  obtain d' where d': "pg_insert_pay_structure (database (self scenario_state)) negative_values
      = Inr d'"
    using ins unfolding d by (cases "pg_insert_pay_structure ?d negative_values") simp_all
  note inst = unchecked_allowances_accepted
      [OF p, where a = "- 5" and b = "- 1" and c = "- 2" and i = 1234567
        and st = scenario_state and tax = "Fin (7825 / 2)" and v = negative_values
        and d' = d']
  from inst have valid: "validate_pay_data ?row' = (True, None)"
    by (rule conjunct1)
  from inst [THEN conjunct2] i m inc v d'
  have it: "pay_iteration postgres scenario_state ?row'
      = (scenario_state\<lparr>self := (self scenario_state)\<lparr>database := d'\<rparr>,
           pay_successful := pay_successful scenario_state + 1\<rparr>, None)"
    and ex: "\<exists>t. d' = (database (self scenario_state))
          \<lparr>pay_structure := pay_structure (database (self scenario_state)) @ [t]\<rparr>
        \<and> p_ta t = Fin (pg_round (- 5) 2)
        \<and> p_uniform_allowance t = Fin (pg_round (- 1) 2)
        \<and> p_other_allowances t = Fin (pg_round (- 2) 2)"
    by blast+
  from ex obtain t where t: "d' = ?d\<lparr>pay_structure := pay_structure ?d @ [t]\<rparr>"
    "p_ta t = Fin (- 5)" "p_uniform_allowance t = Fin (- 1)" "p_other_allowances t = Fin (- 2)"
    unfolding d pg_round_examples by blast
  have "database (self (fst (pay_iteration postgres scenario_state ?row')))
      = \<lparr>employees = [scenario_values], pay_structure = [t]\<rparr>"
    unfolding it by (simp add: t(1))
  with t(2-4) valid show ?thesis by blast
qed

section \<open>The pay loop and unknown employees\<close>


lemma pay_iteration_ids:
  "pay_iteration S st row = (st', x) \<Longrightarrow>
     successful_employee_ids (self st') = successful_employee_ids (self st)"
  by (auto simp add: pay_iteration_def split: sum.splits if_splits)

lemma pay_iteration_counts:
  assumes "pay_iteration S st row = (st', None)"
  shows "pay_successful st' + pay_failed st' = pay_successful st + pay_failed st + 1"
    and "pay_successful st'
           \<le> pay_successful st
              + (if unknown_employee (successful_employee_ids (self st)) row then 0 else 1)"
  using assms
  by (auto simp add: pay_iteration_def unknown_employee_def split: sum.splits if_splits)

lemma pay_loop_counts:
  "pay_loop S st rows = (st', None) \<Longrightarrow>
     pay_successful st' + pay_failed st' = pay_successful st + pay_failed st + length rows
     \<and> pay_successful st'
         \<le> pay_successful st
            + length (filter (\<lambda>row. \<not> unknown_employee (successful_employee_ids (self st)) row) rows)"
proof (induction rows arbitrary: st)
  case Nil
  then show ?case by simp
next
  case (Cons row rows)
  obtain st1 x where it: "pay_iteration S st row = (st1, x)"
    by (cases "pay_iteration S st row")
  with Cons.prems have x: "x = None" and loop: "pay_loop S st1 rows = (st', None)"
    by (auto split: option.splits)
  have ids: "successful_employee_ids (self st1) = successful_employee_ids (self st)"
    using it by (rule pay_iteration_ids)
  from Cons.IH [OF loop] pay_iteration_counts [OF it [unfolded x]] ids
  show ?case by (auto split: if_splits)
qed




section \<open>The employee loop\<close>

lemma validate_employee_data_int:
  assumes "fst (validate_employee_data row)"
  shows "\<exists>i. py_int (employee_row.employee_id row) = Inr i"
  using assms
  by (cases "py_int (employee_row.employee_id row)")
    (simp_all add: validate_employee_data_def validate_employee_body_def)

lemma employee_values_Inr:
  "py_int (employee_row.employee_id row) = Inr i \<Longrightarrow>
     \<exists>v. employee_values row = Inr v \<and> e_employee_id v = i"
  by (simp add: employee_values_def)

lemma employee_iteration_accepted:
  assumes "accepted_employee S (database (self st)) row"
  shows "\<exists>i v d. py_int (employee_row.employee_id row) = Inr i
      \<and> employee_values (stripped row) = Inr v
      \<and> insert_employees S (database (self st)) v = Inr d
      \<and> employee_iteration S st row
          = (st\<lparr>self := (self st)
                  \<lparr>database := d,
                   successful_employee_ids := insert i (successful_employee_ids (self st))\<rparr>,
                successful_inserts := successful_inserts st + 1\<rparr>, None)"
proof -
  from assms have valid: "fst (validate_employee_data (stripped row))"
    by (simp add: accepted_employee_def)
  then obtain i where i: "py_int (employee_row.employee_id (stripped row)) = Inr i"
    using validate_employee_data_int by blast
  then obtain v where v: "employee_values (stripped row) = Inr v" "e_employee_id v = i"
    using employee_values_Inr by blast
  from assms v obtain d where d: "insert_employees S (database (self st)) v = Inr d"
    by (cases "insert_employees S (database (self st)) v") (simp_all add: accepted_employee_def)
  have "employee_iteration S st row
      = (st\<lparr>self := (self st)
              \<lparr>database := d,
               successful_employee_ids := insert i (successful_employee_ids (self st))\<rparr>,
            successful_inserts := successful_inserts st + 1\<rparr>, None)"
    using valid v d by (simp add: employee_iteration_def stripped_def [symmetric])
  moreover from i have "py_int (employee_row.employee_id row) = Inr i"
    by (simp add: stripped_def)
  ultimately show ?thesis using v d by blast
qed

lemma employee_iteration_rejected:
  assumes "\<not> accepted_employee S (database (self st)) row"
  shows "employee_iteration S st row = (st\<lparr>failed_inserts := failed_inserts st + 1\<rparr>, None)"
proof (cases "fst (validate_employee_data (stripped row))")
  case False
  then show ?thesis by (simp add: employee_iteration_def stripped_def [symmetric])
next
  case True
  then obtain i where "py_int (employee_row.employee_id (stripped row)) = Inr i"
    using validate_employee_data_int by blast
  then obtain v where v: "employee_values (stripped row) = Inr v"
    using employee_values_Inr by blast
  with assms True have "isl (insert_employees S (database (self st)) v)"
    by (simp add: accepted_employee_def)
  with True v show ?thesis
    by (cases "insert_employees S (database (self st)) v")
      (simp_all add: employee_iteration_def stripped_def [symmetric])
qed

lemma employee_loop_result:
  "employee_loop S st rows = (st', x) \<Longrightarrow>
     x = None
     \<and> successful_inserts st' + failed_inserts st'
         = successful_inserts st + failed_inserts st + length rows
     \<and> pay_successful st' = pay_successful st \<and> pay_failed st' = pay_failed st
     \<and> successful_employee_ids (self st) \<subseteq> successful_employee_ids (self st')
     \<and> (\<forall>j \<in> successful_employee_ids (self st').
           j \<in> successful_employee_ids (self st)
           \<or> (\<exists>row \<in> set rows. \<exists>d. accepted_employee S d row
                 \<and> py_int (employee_row.employee_id row) = Inr j))"
proof (induction rows arbitrary: st)
  case Nil
  then show ?case by auto
next
  case (Cons row rows)
  show ?case
  proof (cases "accepted_employee S (database (self st)) row")
    case True
    from employee_iteration_accepted [OF True] obtain i v d where
      i: "py_int (employee_row.employee_id row) = Inr i"
      and it: "employee_iteration S st row
          = (st\<lparr>self := (self st)
                  \<lparr>database := d,
                   successful_employee_ids := insert i (successful_employee_ids (self st))\<rparr>,
                successful_inserts := successful_inserts st + 1\<rparr>, None)"
      by blast
    let ?st1 = "st\<lparr>self := (self st)
                  \<lparr>database := d,
                   successful_employee_ids := insert i (successful_employee_ids (self st))\<rparr>,
                successful_inserts := successful_inserts st + 1\<rparr>"
    from Cons.prems it have "employee_loop S ?st1 rows = (st', x)" by simp
    from Cons.IH [OF this] True i show ?thesis
      by (auto simp del: employee_loop.simps)
  next
    case False
    let ?st1 = "st\<lparr>failed_inserts := failed_inserts st + 1\<rparr>"
    from employee_iteration_rejected [OF False] Cons.prems
    have "employee_loop S ?st1 rows = (st', x)" by simp
    from Cons.IH [OF this] show ?thesis
      by (auto simp del: employee_loop.simps)
  qed
qed

text \<open>
  C3. In the employee loop an \<open>employee_id\<close> enters the set of accepted identities only
  when the row passes the local validation and the server carries out its \<open>INSERT\<close>; then
  the row is counted as successful. In every other case, a failing \<open>INSERT\<close> after a
  passed validation included, the row is counted as failed and the set and the database stay
  as they were. The loop never raises, and every identity that it adds comes from a row
  that was accepted.
\<close>

theorem accepted_identity_only_after_insert:
  "(accepted_employee S (database (self st)) row \<longrightarrow>
      (\<exists>i v d. py_int (employee_row.employee_id row) = Inr i
         \<and> employee_values (stripped row) = Inr v
         \<and> insert_employees S (database (self st)) v = Inr d
         \<and> employee_iteration S st row
             = (st\<lparr>self := (self st)
                     \<lparr>database := d,
                      successful_employee_ids := insert i (successful_employee_ids (self st))\<rparr>,
                   successful_inserts := successful_inserts st + 1\<rparr>, None)))
   \<and> (\<not> accepted_employee S (database (self st)) row \<longrightarrow>
        employee_iteration S st row = (st\<lparr>failed_inserts := failed_inserts st + 1\<rparr>, None))
   \<and> (employee_loop S st rows = (st', x) \<longrightarrow>
        x = None
        \<and> (\<forall>j \<in> successful_employee_ids (self st').
              j \<in> successful_employee_ids (self st)
              \<or> (\<exists>row \<in> set rows. \<exists>d. accepted_employee S d row
                    \<and> py_int (employee_row.employee_id row) = Inr j)))"
  using employee_iteration_accepted [of S st row] employee_iteration_rejected [of S st row]
    employee_loop_result [of S st rows st' x]
  by blast

lemma scenario_employee_valid:
  "fst (validate_employee_data (stripped (employees_fillna scenario_employee)))"
  by code_simp

lemma scenario_employee_insert_fails:
  "\<not> accepted_employee postgres (database (self scenario_state))
        (employees_fillna scenario_employee)"
  unfolding scenario_state_eq by code_simp

lemma scenario_employee_accepted:
  "accepted_employee postgres empty_database (employees_fillna scenario_employee)"
  by code_simp

lemma scenario_employee_id:
  "py_int (employee_row.employee_id (employees_fillna scenario_employee)) = Inr 1234567"
  by code_simp

theorem accepted_identity_only_after_insert_witness:
  "accepted_employee postgres empty_database (employees_fillna scenario_employee)
   \<and> successful_employee_ids (self (fst (employee_iteration postgres
         \<lparr>self = DatabaseManager_init empty_database, successful_inserts = 0,
          failed_inserts = 0, pay_successful = 0, pay_failed = 0\<rparr>
         (employees_fillna scenario_employee)))) = {1234567}
   \<and> fst (validate_employee_data (stripped (employees_fillna scenario_employee)))
   \<and> \<not> accepted_employee postgres (database (self scenario_state))
        (employees_fillna scenario_employee)
   \<and> employee_iteration postgres scenario_state (employees_fillna scenario_employee)
       = (scenario_state\<lparr>failed_inserts := failed_inserts scenario_state + 1\<rparr>, None)"
proof -
  let ?row = "employees_fillna scenario_employee"
  let ?st0 = "\<lparr>self = DatabaseManager_init empty_database, successful_inserts = 0,
    failed_inserts = 0, pay_successful = 0, pay_failed = 0\<rparr>"
  have acc: "accepted_employee postgres (database (self ?st0)) ?row"
    using scenario_employee_accepted by (simp add: DatabaseManager_init_def)
  from accepted_identity_only_after_insert [where S = postgres and st = ?st0 and row = ?row] acc
  obtain i v d where "py_int (employee_row.employee_id ?row) = Inr i"
    and "employee_iteration postgres ?st0 ?row
        = (?st0\<lparr>self := (self ?st0)
               \<lparr>database := d,
                successful_employee_ids := insert i (successful_employee_ids (self ?st0))\<rparr>,
             successful_inserts := successful_inserts ?st0 + 1\<rparr>, None)"
    by blast
  then have first: "successful_employee_ids (self (fst (employee_iteration postgres ?st0 ?row)))
      = {1234567}"
    by (simp add: scenario_employee_id DatabaseManager_init_def)
  from accepted_identity_only_after_insert
      [where S = postgres and st = scenario_state and row = ?row]
    scenario_employee_insert_fails
  have second: "employee_iteration postgres scenario_state ?row
      = (scenario_state\<lparr>failed_inserts := failed_inserts scenario_state + 1\<rparr>, None)"
    by blast
  from scenario_employee_accepted first scenario_employee_valid scenario_employee_insert_fails
    second
  show ?thesis by blast
qed

section \<open>Missing values\<close>

text \<open>
  C5 (not met by the code). The validators never raise: conversions that fail are caught and
  answered with \<open>False\<close>. But a missing value is not always refused: a missing
  \<open>first_name\<close> reads \<open>nan\<close> (or \<open>NA\<close> after \<open>fillna\<close>), which the pattern for names
  accepts, and a missing \<open>base_salary\<close> is a NaN, for which the comparison that rejects is
  false. On these rows the validators answer \<open>(True, None)\<close>.
\<close>

theorem missing_values_pass_validation:
  "validate_employee_data (scenario_employee\<lparr>first_name := None\<rparr>) = (True, None)
   \<and> validate_employee_data (stripped (employees_fillna (scenario_employee\<lparr>first_name := None\<rparr>)))
       = (True, None)
   \<and> validate_pay_data (scenario_pay\<lparr>base_salary := Nan\<rparr>) = (True, None)
   \<and> validate_pay_data (pay_fillna (scenario_pay\<lparr>base_salary := Nan\<rparr>)) = (True, None)"
  by code_simp

section \<open>The annual income\<close>








lemma add_annual_income_nth:
  "add_annual_income rows = Inr rows' \<Longrightarrow>
     length rows' = length rows
     \<and> (\<forall>k < length rows.
           annual_income_of (rows ! k) = Inr (annual_income (rows' ! k))
           \<and> pay_row.truncate (rows' ! k) = rows ! k)"
proof (induction rows arbitrary: rows')
  case Nil
  then show ?case by simp
next
  case (Cons row rows)
  from Cons.prems obtain a rs where a: "annual_income_of row = Inr a"
    and rs: "add_annual_income rows = Inr rs"
    and eq: "rows' = pay_row.extend row (pay_row_with_income.fields a) # rs"
    by (auto split: sum.splits)
  have hd: "annual_income (pay_row.extend row (pay_row_with_income.fields a)) = a"
    "pay_row.truncate (pay_row.extend row (pay_row_with_income.fields a)) = row"
    by (simp_all add: pay_row.extend_def pay_row_with_income.fields_def pay_row.truncate_def)
  from Cons.IH [OF rs] a hd show ?case
    unfolding eq by (auto simp add: nth_Cons split: nat.splits)
qed



section \<open>Runs on the same object\<close>

lemma pay_loop_ids:
  "pay_loop S st rows = (st', x) \<Longrightarrow>
     successful_employee_ids (self st') = successful_employee_ids (self st)
     \<and> successful_inserts st' = successful_inserts st
     \<and> failed_inserts st' = failed_inserts st"
proof (induction rows arbitrary: st)
  case Nil
  then show ?case by simp
next
  case (Cons row rows)
  obtain st1 y where it: "pay_iteration S st row = (st1, y)"
    by (cases "pay_iteration S st row")
  have keep: "successful_employee_ids (self st1) = successful_employee_ids (self st)
      \<and> successful_inserts st1 = successful_inserts st
      \<and> failed_inserts st1 = failed_inserts st"
    using it by (auto simp add: pay_iteration_def split: sum.splits if_splits)
  show ?case
  proof (cases y)
    case None
    with Cons.prems it have "pay_loop S st1 rows = (st', x)" by simp
    from Cons.IH [OF this] keep show ?thesis by simp
  next
    case (Some e)
    with Cons.prems it have "st' = st1" by simp
    with keep show ?thesis by simp
  qed
qed

lemma add_annual_income_length:
  "add_annual_income rows = Inr rows' \<Longrightarrow> length rows' = length rows"
  using add_annual_income_nth by blast

lemma import_data_run:
  assumes "import_data S slf employees_df pay_df = (st, x)"
  shows "successful_employee_ids slf \<subseteq> successful_employee_ids (self st)"
    and "successful_inserts st + failed_inserts st = length employees_df"
    and "x = None \<Longrightarrow> pay_successful st + pay_failed st = length pay_df"
    and "\<forall>j \<in> successful_employee_ids (self st).
           j \<in> successful_employee_ids slf
           \<or> (\<exists>row \<in> set (map employees_fillna employees_df). \<exists>d. accepted_employee S d row
                 \<and> py_int (employee_row.employee_id row) = Inr j)"
proof -
  let ?st0 = "\<lparr>self = slf, successful_inserts = 0, failed_inserts = 0,
    pay_successful = 0, pay_failed = 0\<rparr>"
  obtain st1 y where loop1: "employee_loop S ?st0 (map employees_fillna employees_df) = (st1, y)"
    by (cases "employee_loop S ?st0 (map employees_fillna employees_df)")
  note r1 = employee_loop_result [OF loop1]
  from r1 have y: "y = None" by simp
  have "(successful_employee_ids slf \<subseteq> successful_employee_ids (self st)
      \<and> successful_inserts st + failed_inserts st = length employees_df
      \<and> (\<forall>j \<in> successful_employee_ids (self st).
           j \<in> successful_employee_ids slf
           \<or> (\<exists>row \<in> set (map employees_fillna employees_df). \<exists>d. accepted_employee S d row
                 \<and> py_int (employee_row.employee_id row) = Inr j)))
      \<and> (x = None \<longrightarrow> pay_successful st + pay_failed st = length pay_df)"
  proof (cases "add_annual_income (map pay_fillna pay_df)")
    case (Inl e)
    with assms loop1 y have "st = st1" "x = Some e"
      by (simp_all add: import_data_def)
    with r1 show ?thesis by simp
  next
    case (Inr rows')
    with assms loop1 y have loop2: "pay_loop S st1 rows' = (st, x)"
      by (simp add: import_data_def)
    have len: "length rows' = length pay_df"
      using add_annual_income_length [OF Inr] by simp
    note r2 = pay_loop_ids [OF loop2]
    have "x = None \<longrightarrow> pay_successful st + pay_failed st = length pay_df"
    proof
      assume "x = None"
      with loop2 have "pay_loop S st1 rows' = (st, None)" by simp
      from pay_loop_counts [OF this] r1 len show "pay_successful st + pay_failed st = length pay_df"
        by simp
    qed
    with r1 r2 show ?thesis by simp
  qed
  then show "successful_employee_ids slf \<subseteq> successful_employee_ids (self st)"
    and "successful_inserts st + failed_inserts st = length employees_df"
    and "x = None \<Longrightarrow> pay_successful st + pay_failed st = length pay_df"
    and "\<forall>j \<in> successful_employee_ids (self st).
           j \<in> successful_employee_ids slf
           \<or> (\<exists>row \<in> set (map employees_fillna employees_df). \<exists>d. accepted_employee S d row
                 \<and> py_int (employee_row.employee_id row) = Inr j)"
    by blast+
qed

text \<open>
  C6, as the specification states it, fails: \<open>import_data\<close> does not reset the set of
  accepted identities. After a first run has accepted the employee of the scenario, a second
  run on the same object, with no employee rows at all, still holds the identity and accepts
  the pay row that refers to it.
\<close>

theorem identity_set_not_reset_counterexample:
  "successful_employee_ids (self (fst (import_data postgres
       (self (fst (import_data postgres (DatabaseManager_init empty_database)
                     [scenario_employee] [])))
       [] []))) = {1234567}
   \<and> pay_successful (fst (import_data postgres
       (self (fst (import_data postgres (DatabaseManager_init empty_database)
                     [scenario_employee] [])))
       [] [scenario_pay])) = 1"
  by code_simp

text \<open>
  C6, amended. The four counters are local to an invocation of \<open>import_data\<close> and start
  at zero in each: at the end they count the rows of this invocation. The set of accepted
  identities is empty when the \<open>DatabaseManager\<close> is constructed; an invocation starts from
  the set that the object holds and only adds the identities of the employee rows that it
  accepts itself.
\<close>

theorem counters_run_scoped_set_accumulates:
  "successful_employee_ids (DatabaseManager_init d0) = {}
   \<and> (import_data S slf employees_df pay_df = (st, x) \<longrightarrow>
        successful_inserts st + failed_inserts st = length employees_df
        \<and> (x = None \<longrightarrow> pay_successful st + pay_failed st = length pay_df)
        \<and> successful_employee_ids slf \<subseteq> successful_employee_ids (self st)
        \<and> (\<forall>j \<in> successful_employee_ids (self st).
              j \<in> successful_employee_ids slf
              \<or> (\<exists>row \<in> set (map employees_fillna employees_df). \<exists>d. accepted_employee S d row
                    \<and> py_int (employee_row.employee_id row) = Inr j)))"
proof (intro conjI impI)
  show "successful_employee_ids (DatabaseManager_init d0) = {}"
    by (simp add: DatabaseManager_init_def)
next
  assume run: "import_data S slf employees_df pay_df = (st, x)"
  show "successful_inserts st + failed_inserts st = length employees_df"
    using run by (rule import_data_run(2))
  show "successful_employee_ids slf \<subseteq> successful_employee_ids (self st)"
    using run by (rule import_data_run(1))
  show "\<forall>j \<in> successful_employee_ids (self st).
      j \<in> successful_employee_ids slf
      \<or> (\<exists>row \<in> set (map employees_fillna employees_df). \<exists>d. accepted_employee S d row
            \<and> py_int (employee_row.employee_id row) = Inr j)"
    using run by (rule import_data_run(4))
  assume "x = None"
  with run show "pay_successful st + pay_failed st = length pay_df"
    by (rule import_data_run(3))
qed

lemma scenario_run_returns:
  "snd (import_data postgres (DatabaseManager_init empty_database)
          [scenario_employee] [scenario_pay]) = None"
  by code_simp

theorem counters_run_scoped_set_accumulates_witness:
  "\<exists>st. import_data postgres (DatabaseManager_init empty_database)
           [scenario_employee] [scenario_pay] = (st, None)
     \<and> successful_inserts st + failed_inserts st = length [scenario_employee]
     \<and> pay_successful st + pay_failed st = length [scenario_pay]
     \<and> successful_employee_ids (DatabaseManager_init empty_database)
         \<subseteq> successful_employee_ids (self st)"
proof -
  obtain st x where run: "import_data postgres (DatabaseManager_init empty_database)
      [scenario_employee] [scenario_pay] = (st, x)"
    by (cases "import_data postgres (DatabaseManager_init empty_database)
      [scenario_employee] [scenario_pay]")
  with scenario_run_returns have x: "x = None" by simp
  note inst = counters_run_scoped_set_accumulates
      [where S = postgres and slf = "DatabaseManager_init empty_database"
        and employees_df = "[scenario_employee]" and pay_df = "[scenario_pay]"
        and st = st and x = x, THEN conjunct2, rule_format, OF run]
  from inst have "successful_inserts st + failed_inserts st = length [scenario_employee]"
    by (rule conjunct1)
  moreover from inst x
  have "pay_successful st + pay_failed st = length [scenario_pay]"
    by simp
  moreover from inst
  have "successful_employee_ids (DatabaseManager_init empty_database)
      \<subseteq> successful_employee_ids (self st)"
    by simp
  ultimately show ?thesis using run x by simp
qed

section \<open>The retry loop\<close>

lemma upt_5: "[0..<5] = [0, 1, 2, 3, 4]"
  by (simp add: upt_rec)

lemma connect_loop_5:
  fixes slf :: "'db manager"
  assumes "max_retries slf = 5" "retry_delay slf = 3"
  shows "connect_loop srv slf [0, 1, 2, 3, 4] =
    (if connect_succeeds srv 0 then ([Connect 0], slf\<lparr>connected := True\<rparr>, Return)
     else if connect_succeeds srv 1 then
       ([Connect 0, Sleep 3, Connect 1], slf\<lparr>connected := True\<rparr>, Return)
     else if connect_succeeds srv 2 then
       ([Connect 0, Sleep 3, Connect 1, Sleep 6, Connect 2], slf\<lparr>connected := True\<rparr>, Return)
     else if connect_succeeds srv 3 then
       ([Connect 0, Sleep 3, Connect 1, Sleep 6, Connect 2, Sleep 9, Connect 3],
        slf\<lparr>connected := True\<rparr>, Return)
     else if connect_succeeds srv 4 then
       ([Connect 0, Sleep 3, Connect 1, Sleep 6, Connect 2, Sleep 9, Connect 3, Sleep 12,
         Connect 4], slf\<lparr>connected := True\<rparr>, Return)
     else
       ([Connect 0, Sleep 3, Connect 1, Sleep 6, Connect 2, Sleep 9, Connect 3, Sleep 12,
         Connect 4], slf, Raise_error))"
  using assms by simp

lemma retry_prefix_3:
  "retry_prefix 3 0 = []"
  "retry_prefix 3 1 = [Connect 0, Sleep 3]"
  "retry_prefix 3 (Suc 0) = [Connect 0, Sleep 3]"
  "retry_prefix 3 2 = [Connect 0, Sleep 3, Connect 1, Sleep 6]"
  "retry_prefix 3 3 = [Connect 0, Sleep 3, Connect 1, Sleep 6, Connect 2, Sleep 9]"
  "retry_prefix 3 4
     = [Connect 0, Sleep 3, Connect 1, Sleep 6, Connect 2, Sleep 9, Connect 3, Sleep 12]"
  by (simp_all add: retry_prefix_def upt_rec)

lemma connect_to_psu_db_refused:
  assumes "admin_probe srv \<noteq> Inr True"
  shows "connect_to_psu_db srv slf = ([Admin_session], slf, Raise_does_not_exist)"
proof (cases "admin_probe srv")
  case (Inl e)
  then show ?thesis by (simp add: connect_to_psu_db_def verify_database_exists_def)
next
  case (Inr b)
  with assms have "\<not> b" by simp
  with Inr show ?thesis by (simp add: connect_to_psu_db_def verify_database_exists_def)
qed

lemma connect_to_psu_db_attempts:
  fixes d :: 'db
  assumes "admin_probe srv = Inr True"
    and "connect_to_psu_db srv (DatabaseManager_init d) = (events, slf', result)"
  shows "\<exists>n<5. events = Admin_session # retry_prefix 3 n @ [Connect n]
      \<and> (\<forall>k<n. \<not> connect_succeeds srv k)
      \<and> (if connect_succeeds srv n
          then result = Return \<and> slf' = (DatabaseManager_init d)\<lparr>connected := True\<rparr>
          else n = 4 \<and> result = Raise_error \<and> slf' = DatabaseManager_init d)"
proof -
  let ?slf = "DatabaseManager_init d :: 'db manager"
  have m: "max_retries ?slf = 5" "retry_delay ?slf = 3"
    by (simp_all add: DatabaseManager_init_def)
  have run: "(events, slf', result)
      = (let (es, r) = connect_loop srv ?slf [0, 1, 2, 3, 4] in (Admin_session # es, r))"
    using assms by (simp add: connect_to_psu_db_def verify_database_exists_def m upt_5)
  note loop = connect_loop_5 [OF m, of srv]
  have lt: "\<And>P. (\<forall>k<(1::nat). P k) = P 0" "\<And>P. (\<forall>k<(2::nat). P k) = (P 0 \<and> P 1)"
    "\<And>P. (\<forall>k<(3::nat). P k) = (P 0 \<and> P 1 \<and> P 2)"
    "\<And>P. (\<forall>k<(4::nat). P k) = (P 0 \<and> P 1 \<and> P 2 \<and> P 3)"
    by (auto simp add: less_Suc_eq numeral_nat)
  consider (s0) "connect_succeeds srv 0"
    | (s1) "\<not> connect_succeeds srv 0" "connect_succeeds srv 1"
    | (s2) "\<not> connect_succeeds srv 0" "\<not> connect_succeeds srv 1" "connect_succeeds srv 2"
    | (s3) "\<not> connect_succeeds srv 0" "\<not> connect_succeeds srv 1" "\<not> connect_succeeds srv 2"
        "connect_succeeds srv 3"
    | (s4) "\<not> connect_succeeds srv 0" "\<not> connect_succeeds srv 1" "\<not> connect_succeeds srv 2"
        "\<not> connect_succeeds srv 3"
    by blast
  then show ?thesis
  proof cases
    case s0
    have "connect_loop srv ?slf [0, 1, 2, 3, 4] = ([Connect 0], ?slf\<lparr>connected := True\<rparr>, Return)"
      by (subst loop) (simp add: s0 del: One_nat_def)
    from run [unfolded this] s0 show ?thesis
      by (intro exI [of _ 0]) (simp add: retry_prefix_3 del: One_nat_def)
  next
    case s1
    have "connect_loop srv ?slf [0, 1, 2, 3, 4]
        = ([Connect 0, Sleep 3, Connect 1], ?slf\<lparr>connected := True\<rparr>, Return)"
      by (subst loop) (simp add: s1 del: One_nat_def)
    from run [unfolded this] s1 show ?thesis
      by (intro exI [of _ 1]) (simp add: retry_prefix_3 del: One_nat_def)
  next
    case s2
    have "connect_loop srv ?slf [0, 1, 2, 3, 4]
        = ([Connect 0, Sleep 3, Connect 1, Sleep 6, Connect 2], ?slf\<lparr>connected := True\<rparr>,
           Return)"
      by (subst loop) (simp add: s2 del: One_nat_def)
    from run [unfolded this] s2 show ?thesis
      by (intro exI [of _ 2]) (simp add: retry_prefix_3 lt del: One_nat_def)
  next
    case s3
    have "connect_loop srv ?slf [0, 1, 2, 3, 4]
        = ([Connect 0, Sleep 3, Connect 1, Sleep 6, Connect 2, Sleep 9, Connect 3],
           ?slf\<lparr>connected := True\<rparr>, Return)"
      by (subst loop) (simp add: s3 del: One_nat_def)
    from run [unfolded this] s3 show ?thesis
      by (intro exI [of _ 3]) (simp add: retry_prefix_3 lt del: One_nat_def)
  next
    case s4
    have "connect_loop srv ?slf [0, 1, 2, 3, 4]
        = ([Connect 0, Sleep 3, Connect 1, Sleep 6, Connect 2, Sleep 9, Connect 3, Sleep 12,
            Connect 4],
           if connect_succeeds srv 4 then ?slf\<lparr>connected := True\<rparr> else ?slf,
           if connect_succeeds srv 4 then Return else Raise_error)"
      by (subst loop) (simp add: s4 del: One_nat_def)
    from run [unfolded this] s4 show ?thesis
      by (intro exI [of _ 4]) (simp add: retry_prefix_3 lt del: One_nat_def)
  qed
qed

lemma count_retry_prefix: "length (filter is_connect (retry_prefix delay n)) = n"
  by (induction n) (simp_all add: retry_prefix_def is_connect_def)

text \<open>
  C9. \<open>connect_to_psu_db\<close> first asks, over the session of \<open>verify_database_exists\<close>,
  whether the database exists; if the answer is not yes (an error of that session included)
  it raises at once, with no connection attempt and no wait. Otherwise it makes at most
  5 attempts; a failed attempt number \<open>k\<close> (counted from 1) is followed by a sleep of
  \<open>retry_delay \<times> k\<close> seconds and the next attempt, and when the fifth fails too the error
  is raised.
\<close>

theorem connect_to_psu_db_retries:
  "connect_to_psu_db srv (DatabaseManager_init d) = (events, slf', result) \<longrightarrow>
     hd events = Admin_session
     \<and> length (filter is_connect events) \<le> 5
     \<and> (admin_probe srv \<noteq> Inr True \<longrightarrow>
          events = [Admin_session] \<and> result = Raise_does_not_exist)
     \<and> (admin_probe srv = Inr True \<longrightarrow>
          (\<exists>n<5. events
                   = Admin_session
                     # retry_prefix (retry_delay (DatabaseManager_init d)) n @ [Connect n]
             \<and> (\<forall>k<n. \<not> connect_succeeds srv k)
             \<and> (if connect_succeeds srv n then result = Return \<and> connected slf'
                 else n = 4 \<and> result = Raise_error)))"
proof
  assume run: "connect_to_psu_db srv (DatabaseManager_init d) = (events, slf', result)"
  have delay: "retry_delay (DatabaseManager_init d) = 3"
    by (simp add: DatabaseManager_init_def)
  show "hd events = Admin_session
     \<and> length (filter is_connect events) \<le> 5
     \<and> (admin_probe srv \<noteq> Inr True \<longrightarrow>
          events = [Admin_session] \<and> result = Raise_does_not_exist)
     \<and> (admin_probe srv = Inr True \<longrightarrow>
          (\<exists>n<5. events
                   = Admin_session
                     # retry_prefix (retry_delay (DatabaseManager_init d)) n @ [Connect n]
             \<and> (\<forall>k<n. \<not> connect_succeeds srv k)
             \<and> (if connect_succeeds srv n then result = Return \<and> connected slf'
                 else n = 4 \<and> result = Raise_error)))"
  proof (cases "admin_probe srv = Inr True")
    case False
    from connect_to_psu_db_refused [OF False, of "DatabaseManager_init d"] run
    have "events = [Admin_session]" "result = Raise_does_not_exist"
      by simp_all
    with False show ?thesis by (simp add: is_connect_def)
  next
    case True
    from connect_to_psu_db_attempts [OF True run] obtain n where n: "n < 5"
      and ev: "events = Admin_session # retry_prefix 3 n @ [Connect n]"
      and fails: "\<forall>k<n. \<not> connect_succeeds srv k"
      and res: "if connect_succeeds srv n
          then result = Return \<and> slf' = (DatabaseManager_init d)\<lparr>connected := True\<rparr>
          else n = 4 \<and> result = Raise_error \<and> slf' = DatabaseManager_init d"
      by blast
    have count: "length (filter is_connect events) = n + 1"
      unfolding ev by (simp add: count_retry_prefix is_connect_def)
    have res': "if connect_succeeds srv n then result = Return \<and> connected slf'
        else n = 4 \<and> result = Raise_error"
      using res by (simp split: if_splits)
    have first: "hd events = Admin_session"
      unfolding ev by simp
    have atmost: "length (filter is_connect events) \<le> 5"
      using count n by simp
    from n ev fails res' have "\<exists>n<5. events
          = Admin_session # retry_prefix (retry_delay (DatabaseManager_init d)) n @ [Connect n]
        \<and> (\<forall>k<n. \<not> connect_succeeds srv k)
        \<and> (if connect_succeeds srv n then result = Return \<and> connected slf'
            else n = 4 \<and> result = Raise_error)"
      unfolding delay by blast
    with True first atmost show ?thesis by blast
  qed
qed

lemma third_attempt_run:
  "connect_to_psu_db server_third_attempt (DatabaseManager_init empty_database)
     = ([Admin_session, Connect 0, Sleep 3, Connect 1, Sleep 6, Connect 2],
        (DatabaseManager_init empty_database)\<lparr>connected := True\<rparr>, Return)"
  by code_simp

lemma without_database_run:
  "connect_to_psu_db server_without_database (DatabaseManager_init empty_database)
     = ([Admin_session], DatabaseManager_init empty_database, Raise_does_not_exist)"
  by code_simp

theorem connect_to_psu_db_retries_witness:
  "connect_to_psu_db server_third_attempt (DatabaseManager_init empty_database)
     = ([Admin_session, Connect 0, Sleep 3, Connect 1, Sleep 6, Connect 2],
        (DatabaseManager_init empty_database)\<lparr>connected := True\<rparr>, Return)
   \<and> admin_probe server_third_attempt = Inr True
   \<and> length (filter is_connect
         [Admin_session, Connect 0, Sleep 3, Connect 1, Sleep 6, Connect 2]) \<le> 5
   \<and> connect_to_psu_db server_without_database (DatabaseManager_init empty_database)
     = ([Admin_session], DatabaseManager_init empty_database, Raise_does_not_exist)
   \<and> admin_probe server_without_database \<noteq> Inr True"
proof -
  have a: "admin_probe server_third_attempt = Inr True"
    by (simp add: server_third_attempt_def)
  have b: "admin_probe server_without_database \<noteq> Inr True"
    by (simp add: server_without_database_def)
  from connect_to_psu_db_retries [THEN mp, OF third_attempt_run]
  have "length (filter is_connect
      [Admin_session, Connect 0, Sleep 3, Connect 1, Sleep 6, Connect 2]) \<le> 5"
    by simp
  moreover from connect_to_psu_db_retries [THEN mp, OF without_database_run] b
  have "[Admin_session] = [Admin_session] \<and> Raise_does_not_exist = Raise_does_not_exist"
    by simp
  ultimately show ?thesis
    using third_attempt_run without_database_run a b by simp
qed

section \<open>Failing conversions\<close>

text \<open>
  The validators fail closed on what cannot be converted: text in a checked pay field, and
  an \<open>employee_id\<close> that is missing or not a number, are answered with \<open>False\<close>.
\<close>

lemma validate_pay_data_text:
  assumes "base_salary row = Text s \<or> da row = Text s \<or> hra row = Text s \<or> stocks row = Text s
    \<or> vacation_tour row = Text s \<or> medical_benefits row = Text s \<or> bonus_amount row = Text s"
  shows "\<not> fst (validate_pay_data row)"
  unfolding validate_pay_data_fst validate_pay_data_passes
  using assms by (elim disjE) (simp_all add: passes_simps)

lemma validate_employee_data_no_id:
  assumes "employee_row.employee_id row = Nan \<or> employee_row.employee_id row = Text s"
  shows "validate_employee_data row = (False, Some (Validation_error ValueError))"
proof -
  from assms have "py_int (employee_row.employee_id row) = Inl ValueError"
    by (auto simp add: py_int_def)
  then show ?thesis
    by (simp add: validate_employee_data_def validate_employee_body_def)
qed

end
